theory Spec2Isabelle
  imports Main
begin

section \<open>The Wollok interpreter core (src/interpreter.ts)\<close>

text \<open>
  A shallow embedding of \<^verbatim>\<open>src/interpreter.ts\<close>: the instruction set, \<open>compile\<close>,
  \<open>Operations\<close>, \<open>step\<close>, \<open>cloneEvaluation\<close> and \<open>buildEvaluationFor\<close>. The loops of \<open>run\<close>
  and \<open>runTests\<close>, which call \<open>step\<close> until the top frame is exhausted, appear as \<open>steps\<close>.

  Conventions of the embedding.
  \<^item> JavaScript arrays are lists in the array's own order: the top of the frame stack and of
    an operand stack is the \<^emph>\<open>last\<close> element, \<open>push\<close> appends, \<open>pop\<close> removes the last.
  \<^item> The objects used as dictionaries are maps of their own properties. A \<open>Locals\<close> object
    (the locals of a frame, the fields of an instance) is a plain object and has the members
    of \<open>Object.prototype\<close> besides: it is read, tested and assigned through \<open>getProperty\<close>,
    \<open>hasProperty\<close> and \<open>setProperty\<close>. \<open>instances\<close> is keyed by ids, and an id that is not
    among its own keys is taken to be absent.
  \<^item> A thrown error is the value \<open>Inl\<close> of a sum; the evaluation an error leaves behind is
    not observed by any caller in the file and is not kept.
  \<^item> \<open>uuid()\<close> is the host's generator. Its outputs are the parameter \<open>uuid\<close> of type
    \<open>nat \<Rightarrow> Id\<close>, indexed by call number; the number of calls made so far is threaded
    through the state next to the evaluation, because the generator is global and belongs
    to no evaluation.
  \<^item> JavaScript numbers are the opaque type \<open>number\<close>; \<open>Number(x.toFixed(4))\<close> is the host
    parameter \<open>toFixed4\<close>.
  \<^item> \<open>model.ts\<close> and \<open>utils.ts\<close> are not part of the source at hand. The linked program and
    the queries \<open>utils(environment)\<close> returns are the record \<open>Environment\<close>; the queries
    are taken to return normally.
  \<^item> \<open>log.*\<close> only prints and is left out, except that the arguments it is called with are
    still evaluated where they can throw.
\<close>

subsection \<open>Data model\<close>

type_synonym Id = string
type_synonym Name = string

typedecl number

text \<open>\<open>innerValue?: any\<close>: the payloads the interpreter itself stores.\<close>

datatype InnerValue
  = Undefined
  | Null
  | Boolean bool
  | Number number
  | String string
  | Ids "Id list"

type_synonym Locals = "Name \<rightharpoonup> Id"

text \<open>
  The members of \<open>Object.prototype\<close> (ECMAScript, with its annex B), which every \<open>Locals\<close>
  object inherits. A member is a function, and for \<open>__proto__\<close> the prototype itself, where
  the source expects an id. The executor does three things with an id: it tests it for
  truthiness, it compares it with \<open>'true'\<close> and \<open>'false'\<close>, and it uses it as a property
  key. In all three a member behaves as the string it is converted to as a key, so that
  string, as Node prints it, stands for the member here.
\<close>

definition objectPrototype :: "(Name \<times> Id) list" where
  "objectPrototype =
     [(''constructor'', ''function Object() { [native code] }''),
      (''__defineGetter__'', ''function __defineGetter__() { [native code] }''),
      (''__defineSetter__'', ''function __defineSetter__() { [native code] }''),
      (''hasOwnProperty'', ''function hasOwnProperty() { [native code] }''),
      (''__lookupGetter__'', ''function __lookupGetter__() { [native code] }''),
      (''__lookupSetter__'', ''function __lookupSetter__() { [native code] }''),
      (''isPrototypeOf'', ''function isPrototypeOf() { [native code] }''),
      (''propertyIsEnumerable'', ''function propertyIsEnumerable() { [native code] }''),
      (''toString'', ''function toString() { [native code] }''),
      (''valueOf'', ''function valueOf() { [native code] }''),
      (''__proto__'', ''[object Object]''),
      (''toLocaleString'', ''function toLocaleString() { [native code] }'')]"

definition inherited :: "Name \<Rightarrow> Id option" where
  "inherited name = map_of objectPrototype name"

text \<open>
  \<open>obj[name]\<close> is the own property or else the inherited member, and \<open>name in obj\<close> holds
  for either. \<open>obj[name] = v\<close> writes the own property, and makes one when \<open>name\<close> is
  inherited from a data property; for \<open>__proto__\<close>, an accessor, it calls the setter, which
  ignores a string.
\<close>

definition getProperty :: "Locals \<Rightarrow> Name \<Rightarrow> Id option" where
  "getProperty obj name = (case obj name of Some v \<Rightarrow> Some v | None \<Rightarrow> inherited name)"

definition hasProperty :: "Name \<Rightarrow> Locals \<Rightarrow> bool" where
  "hasProperty name obj = (obj name \<noteq> None \<or> inherited name \<noteq> None)"

definition setProperty :: "Name \<Rightarrow> Id \<Rightarrow> Locals \<Rightarrow> Locals" where
  "setProperty name v obj =
     (if name = ''__proto__'' \<and> obj name = None then obj else obj(name \<mapsto> v))"

record RuntimeObject =
  id :: Id
  module :: Name
  obj_fields :: Locals
  innerValue :: InnerValue

datatype Interruption = return | exception | result

definition NULL_ID :: Id where "NULL_ID = ''null''"
definition VOID_ID :: Id where "VOID_ID = ''void''"
definition TRUE_ID :: Id where "TRUE_ID = ''true''"
definition FALSE_ID :: Id where "FALSE_ID = ''false''"

subsection \<open>Instructions\<close>

text \<open>
  \<open>CONDITIONAL_JUMP\<close> carries a JavaScript number that the executor compares with 0, so
  it is an \<open>int\<close>; arities are array lengths. The optional \<open>lookupStart\<close> of \<open>CALL\<close> is an
  option.
\<close>

datatype Instruction
  = LOAD Name
  | STORE Name bool
  | PUSH Id
  | GET Name
  | SET Name
  | SWAP
  | INSTANTIATE Name InnerValue
  | INHERITS Name
  | CONDITIONAL_JUMP int
  | CALL Name nat "Name option"
  | INIT nat Name bool
  | IF_THEN_ELSE "Instruction list" "Instruction list"
  | TRY_CATCH_ALWAYS "Instruction list" "Instruction list" "Instruction list"
  | INTERRUPT Interruption
  | RESUME_INTERRUPTION

record Frame =
  instructions :: "Instruction list"
  nextInstruction :: nat
  locals :: Locals
  operandStack :: "Id list"
  resume :: "Interruption list"

subsection \<open>The linked program\<close>

text \<open>
  Modelled from the spec: the node types of \<open>model.ts\<close>, which is missing, with the
  attributes \<open>interpreter.ts\<close> reads from them. A node that a query of \<open>utils\<close> has to recognise
  carries its id.
\<close>

datatype Reference = Reference (reference_id: Id) (reference_name: Name)

datatype Sentence
  = Variable Name Sentence
  | Return "Sentence option"
  | Assignment Reference Sentence
  | Self
  | ReferenceTo Reference
  | Literal LiteralValue
  | Send Sentence Name "Sentence list"
  | Super Id "Sentence list"
  | New Reference "Sentence list"
  | IfThenElse Sentence Body Body
  | Throw Sentence
  | Try Body "Catch list" Body
and LiteralValue
  = LiteralNull
  | LiteralBoolean bool
  | LiteralNumber number
  | LiteralString string
  | LiteralSingleton Id Reference "Sentence list"
  | LiteralNew Name "Sentence list"
and Body = Body "Sentence list"
and Catch = Catch Name Reference Body

record Parameter =
  parameter_name :: Name
  isVarArg :: bool

record Field =
  field_name :: Name
  field_value :: Sentence

record Method =
  method_id :: Id
  method_name :: Name
  method_parameters :: "Parameter list"
  isNative :: bool
  method_body :: "Body option"

record BaseCall =
  callsSuper :: bool
  baseCall_args :: "Sentence list"

record Constructor =
  constructor_parameters :: "Parameter list"
  baseCall :: BaseCall
  constructor_body :: Body

datatype ClassMember
  = FieldMember Field
  | MethodMember Method
  | ConstructorMember Constructor

record Class =
  class_id :: Id
  members :: "ClassMember list"

record Singleton =
  singleton_id :: Id
  superCall_superclass :: Reference
  superCall_args :: "Sentence list"

datatype Kind = FieldKind | ModuleKind | OtherKind

record Node =
  node_id :: Id
  node_kind :: Kind

text \<open>
  Modelled from the spec: \<open>utils(environment)\<close> of the missing \<open>utils.ts\<close>, the queries of
  section 6 of the specification. \<open>fullyQualifiedName\<close> takes the id of the module node.
  \<open>resolve\<close> takes an option because \<open>CALL\<close> passes it \<open>ownHierarchy[start + 1]\<close>, which is
  \<open>undefined\<close> (\<open>None\<close>) past the end of the hierarchy. \<open>enclosingMethod\<close> is
  \<open>firstAncestorOfKind('Method', node)\<close> of a \<open>Super\<close> node, \<open>globalSingletons\<close> is
  \<open>descendants(environment).filter(is('Singleton')).filter(node => !!node.name)\<close>.
\<close>

record Environment =
  environment_id :: Id
  resolve :: "Name option \<Rightarrow> Class"
  resolveTarget :: "Reference \<Rightarrow> Node"
  fullyQualifiedName :: "Id \<Rightarrow> Name"
  hierarchy :: "Class \<Rightarrow> Class list"
  superclass :: "Class \<Rightarrow> Class option"
  inherits :: "Class \<Rightarrow> Class \<Rightarrow> bool"
  methodLookup :: "Name \<Rightarrow> nat \<Rightarrow> Class \<Rightarrow> Method option"
  constructorLookup :: "nat \<Rightarrow> Class \<Rightarrow> Constructor option"
  enclosingMethod :: "Id \<Rightarrow> Method"
  parentOf :: "Method \<Rightarrow> Class"
  globalSingletons :: "Singleton list"

record Evaluation =
  environment :: Environment
  frameStack :: "Frame list"
  instances :: "Id \<rightharpoonup> RuntimeObject"

subsection \<open>The compiler\<close>

text \<open>
  \<open>compile(environment)\<close> builds a new \<open>memoizeWith\<close> cache at every call, keyed by
  \<open>environment.id + node.id\<close>, so a cache only serves the nodes of one \<open>flatMap\<close>; sibling
  nodes of a linked program have distinct ids, the cache never answers for another node, and
  \<open>compile\<close> is the function it memoizes. \<open>compile\<close> is the case of a sentence,
  \<open>compile_Body\<close> the case \<open>'Body'\<close>.
\<close>

definition is_Field :: "Node \<Rightarrow> bool" where
  "is_Field n = (node_kind n = FieldKind)"

definition isModule :: "Node \<Rightarrow> bool" where
  "isModule n = (node_kind n = ModuleKind)"

fun compile :: "Environment \<Rightarrow> Sentence \<Rightarrow> Instruction list"
  and compile_Literal :: "Environment \<Rightarrow> LiteralValue \<Rightarrow> Instruction list"
  and compile_Body :: "Environment \<Rightarrow> Body \<Rightarrow> Instruction list"
  and compile_Catch :: "Environment \<Rightarrow> Catch \<Rightarrow> Instruction list"
where
  "compile env (Variable name v) = compile env v @ [STORE name False]"
| "compile env (Return v) =
     (case v of Some v' \<Rightarrow> compile env v' | None \<Rightarrow> [PUSH VOID_ID]) @ [INTERRUPT return]"
| "compile env (Assignment reference v) =
     (if is_Field (resolveTarget env reference)
      then [LOAD ''self''] @ compile env v @ [SET (reference_name reference)]
      else compile env v @ [STORE (reference_name reference) True])"
| "compile env Self = [LOAD ''self'']"
| "compile env (ReferenceTo node) =
     (let target = resolveTarget env node in
      if is_Field target then [LOAD ''self'', GET (reference_name node)]
      else if isModule target then [LOAD (fullyQualifiedName env (node_id target))]
      else [LOAD (reference_name node)])"
| "compile env (Literal v) = compile_Literal env v"
| "compile env (Send receiver message args) =
     compile env receiver @ concat (map (compile env) args) @ [CALL message (length args) None]"
| "compile env (Super node args) =
     (let currentMethod = enclosingMethod env node in
      [LOAD ''self''] @ concat (map (compile env) args) @
      [CALL (method_name currentMethod) (length args)
         (Some (fullyQualifiedName env (class_id (parentOf env currentMethod))))])"
| "compile env (New className args) =
     (let fqn = fullyQualifiedName env (node_id (resolveTarget env className)) in
      concat (map (compile env) args) @ [INSTANTIATE fqn Undefined, INIT (length args) fqn True])"
| "compile env (IfThenElse condition thenBody elseBody) =
     compile env condition @ [IF_THEN_ELSE (compile_Body env thenBody) (compile_Body env elseBody)]"
| "compile env (Throw arg) = compile env arg @ [INTERRUPT exception]"
| "compile env (Try body catches always) =
     [TRY_CATCH_ALWAYS (compile_Body env body) (concat (map (compile_Catch env) catches))
        (compile_Body env always)]"
| "compile_Literal env LiteralNull = [PUSH NULL_ID]"
| "compile_Literal env (LiteralBoolean b) = [PUSH (if b then TRUE_ID else FALSE_ID)]"
| "compile_Literal env (LiteralNumber n) = [INSTANTIATE ''wollok.lang.Number'' (Number n)]"
| "compile_Literal env (LiteralString s) = [INSTANTIATE ''wollok.lang.String'' (String s)]"
| "compile_Literal env (LiteralSingleton node superclassRef args) =
     concat (map (compile env) args) @
     [INSTANTIATE (fullyQualifiedName env node) Undefined,
      INIT (length args) (fullyQualifiedName env (node_id (resolveTarget env superclassRef))) True]"
| "compile_Literal env (LiteralNew className args) =
     concat (map (compile env) args) @
     [INSTANTIATE className (Ids []), INIT (length args) className False]"
| "compile_Body env (Body sentences) = concat (map (compile env) sentences)"
| "compile_Catch env (Catch parameter parameterType body) =
     (let compiledCatch =
        [PUSH VOID_ID, LOAD ''<exception>'', STORE parameter False] @ compile_Body env body @
        [INTERRUPT result]
      in [LOAD ''<exception>'',
          INHERITS (fullyQualifiedName env (node_id (resolveTarget env parameterType))),
          CONDITIONAL_JUMP (int (length compiledCatch))] @ compiledCatch)"

subsection \<open>Errors and the host\<close>

text \<open>
  What \<open>step\<close> throws. The constructors up to \<open>CannotInferInterruption\<close> are the messages
  given to \<open>Failure\<close>, with the values the message interpolates; the JSON dump of the
  evaluation that \<open>Failure\<close> appends is left out. \<open>TypeError\<close> is an error of the JavaScript
  runtime itself (a property of \<open>undefined\<close>), \<open>NativeError\<close> whatever a native throws.
\<close>

datatype Failure
  = PoppedEmptyOperandStack
  | UndefinedInstance Id
  | ReachedEndOfFrameStack
  | ReachedEndOfInstructions
  | MissingLocal Name
  | UndefinedField Name Name
  | InvalidJumpCount int
  | MissingConstructor nat Name
  | Unhandled Interruption Id
  | CannotInferInterruption
  | TypeError
  | NativeError string

record Host =
  uuid :: "nat \<Rightarrow> Id"
  toFixed4 :: "number \<Rightarrow> number"

text \<open>
  A state is the number of \<open>uuid()\<close> calls made so far and the evaluation. A native is
  \<open>(self, ...args) => (evaluation) => void\<close>; \<open>Natives\<close> is the registry already applied
  by \<open>nativeLookup(natives, method)\<close>.
\<close>

type_synonym State = "nat \<times> Evaluation"

type_synonym Native =
  "RuntimeObject \<Rightarrow> RuntimeObject option list \<Rightarrow> State \<Rightarrow> Failure + State"

type_synonym Natives = "Method \<Rightarrow> Native"

definition andThen :: "Failure + 'a \<Rightarrow> ('a \<Rightarrow> Failure + 'b) \<Rightarrow> Failure + 'b" where
  "andThen m k = (case m of Inl e \<Rightarrow> Inl e | Inr x \<Rightarrow> k x)"

text \<open>\<open>!x\<close> on an id: the empty string is the only falsy string.\<close>

definition truthy :: "Id \<Rightarrow> bool" where
  "truthy i = (i \<noteq> [])"

subsection \<open>Operations\<close>

definition popOperand :: "Frame \<Rightarrow> Failure + Id \<times> Frame" where
  "popOperand f =
     (if operandStack f = [] then Inl PoppedEmptyOperandStack
      else let response = last (operandStack f) in
        if \<not> truthy response then Inl PoppedEmptyOperandStack
        else Inr (response, f\<lparr>operandStack := butlast (operandStack f)\<rparr>))"

definition pushOperand :: "Id \<Rightarrow> Frame \<Rightarrow> Frame" where
  "pushOperand i f = f\<lparr>operandStack := operandStack f @ [i]\<rparr>"

definition getInstance :: "(Id \<rightharpoonup> RuntimeObject) \<Rightarrow> Id \<Rightarrow> Failure + RuntimeObject" where
  "getInstance insts i = (case insts i of None \<Rightarrow> Inl (UndefinedInstance i) | Some response \<Rightarrow> Inr response)"

text \<open>
  \<open>addInstance\<close> draws the next id of the generator. \<open>innerValue.toFixed(4)\<close> is a
  \<open>TypeError\<close> on anything that is not a number.
\<close>

definition addInstance ::
  "Host \<Rightarrow> Name \<Rightarrow> InnerValue \<Rightarrow> State \<Rightarrow> Failure + Id \<times> State" where
  "addInstance host m v s =
     (let (n, evaluation) = s; i = uuid host n in
      andThen
        (if m = ''wollok.lang.Number''
         then (case v of Number x \<Rightarrow> Inr (Number (toFixed4 host x)) | _ \<Rightarrow> Inl TypeError)
         else Inr v)
        (\<lambda>val. Inr (i, Suc n, evaluation\<lparr>instances := (instances evaluation)
           (i \<mapsto> \<lparr>id = i, module = m, obj_fields = Map.empty, innerValue = val\<rparr>)\<rparr>)))"

text \<open>
  The \<open>do ... while\<close> of \<open>interrupt\<close>: pop, then go on while a frame is left and it does not
  resume on the interruption. \<open>pop\<close> on an empty array does nothing.
\<close>

function interrupt_pop :: "Interruption \<Rightarrow> Frame list \<Rightarrow> Frame list" where
  "interrupt_pop interruption fs =
     (let fs' = butlast fs in
      if fs' \<noteq> [] \<and> interruption \<notin> set (resume (last fs'))
      then interrupt_pop interruption fs' else fs')"
  by pat_completeness auto
termination
proof (relation "measure (\<lambda>(interruption, fs). length fs)")
  fix interruption :: Interruption and fs fs' :: "Frame list"
  assume "fs' = butlast fs" and "fs' \<noteq> [] \<and> interruption \<notin> set (resume (last fs'))"
  then have "fs \<noteq> []" by auto
  with \<open>fs' = butlast fs\<close>
  show "((interruption, fs'), (interruption, fs)) \<in> measure (\<lambda>(interruption, fs). length fs)"
    by simp
qed simp

declare interrupt_pop.simps [simp del]

definition interrupt :: "Interruption \<Rightarrow> Id \<Rightarrow> Evaluation \<Rightarrow> Failure + Evaluation" where
  "interrupt interruption valueId evaluation =
     (let fs = interrupt_pop interruption (frameStack evaluation) in
      if fs = [] then
        andThen
          (if interruption = exception
           then andThen (getInstance (instances evaluation) valueId) (\<lambda>val.
             case getProperty (obj_fields val) ''message'' of
               None \<Rightarrow> Inr ()
             | Some message \<Rightarrow>
                 if truthy message
                 then andThen (getInstance (instances evaluation) message) (\<lambda>_. Inr ())
                 else Inr ())
           else Inr ())
          (\<lambda>_. Inl (Unhandled interruption valueId))
      else
        let nextFrame = last fs in
        Inr (evaluation\<lparr>frameStack := butlast fs @
          [nextFrame\<lparr>resume := filter (\<lambda>elem. elem \<noteq> interruption) (resume nextFrame),
                     operandStack := operandStack nextFrame @ [valueId]\<rparr>]\<rparr>))"

subsection \<open>Helpers of the step executor\<close>

text \<open>
  \<open>currentFrame\<close> is \<open>last(frameStack)\<close>; the executor mutates that frame in place, which
  \<open>setCurrentFrame\<close> writes back.
\<close>

definition currentFrame :: "Evaluation \<Rightarrow> Frame" where
  "currentFrame evaluation = last (frameStack evaluation)"

definition setCurrentFrame :: "Frame \<Rightarrow> Evaluation \<Rightarrow> Evaluation" where
  "setCurrentFrame f evaluation =
     evaluation\<lparr>frameStack := butlast (frameStack evaluation) @ [f]\<rparr>"

definition pushFrame :: "Frame \<Rightarrow> Evaluation \<Rightarrow> Evaluation" where
  "pushFrame f evaluation = evaluation\<lparr>frameStack := frameStack evaluation @ [f]\<rparr>"

text \<open>\<open>Array.from({ length: arity }, popOperand)\<close>: the ids in the order they are popped.\<close>

fun popOperands :: "nat \<Rightarrow> Frame \<Rightarrow> Failure + Id list \<times> Frame" where
  "popOperands 0 f = Inr ([], f)"
| "popOperands (Suc k) f =
     andThen (popOperand f) (\<lambda>(x, f').
     andThen (popOperands k f') (\<lambda>(xs, f'').
     Inr (x # xs, f'')))"

text \<open>
  \<open>[...xs].reverse().find(p)\<close>, as the position in \<open>xs\<close> of the element found: the last
  one that satisfies \<open>p\<close>.
\<close>

fun findLastIndex :: "('a \<Rightarrow> bool) \<Rightarrow> 'a list \<Rightarrow> nat option" where
  "findLastIndex p [] = None"
| "findLastIndex p (x # xs) =
     (case findLastIndex p xs of
        Some i \<Rightarrow> Some (Suc i)
      | None \<Rightarrow> if p x then Some 0 else None)"

text \<open>\<open>xs.findIndex(p)\<close>, which is \<open>-1\<close> when nothing is found, and \<open>xs[i]\<close>.\<close>

fun findIndex :: "('a \<Rightarrow> bool) \<Rightarrow> 'a list \<Rightarrow> int" where
  "findIndex p [] = - 1"
| "findIndex p (x # xs) =
     (if p x then 0 else let r = findIndex p xs in if r < 0 then - 1 else r + 1)"

definition at :: "'a list \<Rightarrow> int \<Rightarrow> 'a option" where
  "at xs i = (if 0 \<le> i \<and> nat i < length xs then Some (xs ! nat i) else None)"

text \<open>Ramda's \<open>zipObj\<close>: pairs up to the shorter list, a repeated key keeps its last value.\<close>

definition zipObj :: "Name list \<Rightarrow> Id list \<Rightarrow> Locals" where
  "zipObj ks vs = foldl (\<lambda>out (k, v). out(k \<mapsto> v)) Map.empty (zip ks vs)"

definition fieldsOf :: "Class \<Rightarrow> Field list" where
  "fieldsOf c = concat (map (\<lambda>m. case m of FieldMember f \<Rightarrow> [f] | _ \<Rightarrow> []) (members c))"

text \<open>The locals of a call: the parameters, a varargs tail as a fresh list, and \<open>self\<close>.\<close>

definition bindParameters ::
  "Host \<Rightarrow> Parameter list \<Rightarrow> Id list \<Rightarrow> Id \<Rightarrow> State \<Rightarrow> Failure + Locals \<times> State" where
  "bindParameters host parameters argIds selfId s =
     (let parameterNames = map parameter_name parameters in
      if \<exists>p \<in> set parameters. isVarArg p then
        andThen (addInstance host ''wollok.lang.List''
                   (Ids (drop (length parameters - 1) argIds)) s) (\<lambda>(restId, s').
        Inr ((zipObj (butlast parameterNames) argIds)
               (parameter_name (last parameters) \<mapsto> restId, ''self'' \<mapsto> selfId), s'))
      else Inr ((zipObj parameterNames argIds)(''self'' \<mapsto> selfId), s))"

definition emptyFrame :: "Instruction list \<Rightarrow> Frame" where
  "emptyFrame is =
     \<lparr>instructions = is, nextInstruction = 0, locals = Map.empty, operandStack = [], resume = []\<rparr>"

definition addResume :: "Interruption \<Rightarrow> Frame \<Rightarrow> Frame" where
  "addResume interruption f = f\<lparr>resume := resume f @ [interruption]\<rparr>"

subsection \<open>Steps\<close>

text \<open>
  One definition for each case of the \<open>switch\<close> of \<open>step\<close>. Each takes the state in
  which \<open>currentFrame.nextInstruction++\<close> has already happened.
\<close>

definition step_LOAD :: "Name \<Rightarrow> State \<Rightarrow> Failure + State" where
  "step_LOAD name s =
     (let (n, evaluation) = s in
      case List.find (\<lambda>it. case it of None \<Rightarrow> False | Some v \<Rightarrow> truthy v)
             (rev (map (\<lambda>f. getProperty (locals f) name) (frameStack evaluation))) of
        Some (Some val) \<Rightarrow>
          Inr (n, setCurrentFrame (pushOperand val (currentFrame evaluation)) evaluation)
      | _ \<Rightarrow> Inl (MissingLocal name))"

definition step_STORE :: "Name \<Rightarrow> bool \<Rightarrow> State \<Rightarrow> Failure + State" where
  "step_STORE name lookup s =
     (let (n, evaluation) = s in
      andThen (popOperand (currentFrame evaluation)) (\<lambda>(valueId, f).
      let fs = frameStack (setCurrentFrame f evaluation);
          found = (if lookup then findLastIndex (\<lambda>fr. hasProperty name (locals fr)) fs else None);
          i = (case found of Some j \<Rightarrow> j | None \<Rightarrow> length fs - 1)
      in Inr (n, evaluation\<lparr>frameStack :=
                fs[i := (fs ! i)\<lparr>locals := setProperty name valueId (locals (fs ! i))\<rparr>]\<rparr>)))"

definition step_PUSH :: "Id \<Rightarrow> State \<Rightarrow> Failure + State" where
  "step_PUSH i s =
     (let (n, evaluation) = s in
      Inr (n, setCurrentFrame (pushOperand i (currentFrame evaluation)) evaluation))"

definition step_GET :: "Name \<Rightarrow> State \<Rightarrow> Failure + State" where
  "step_GET name s =
     (let (n, evaluation) = s in
      andThen (popOperand (currentFrame evaluation)) (\<lambda>(selfId, f).
      andThen (getInstance (instances evaluation) selfId) (\<lambda>self.
      case getProperty (obj_fields self) name of
        None \<Rightarrow> Inl (UndefinedField (module self) name)
      | Some val \<Rightarrow>
          if \<not> truthy val then Inl (UndefinedField (module self) name)
          else Inr (n, setCurrentFrame (pushOperand val f) evaluation))))"

definition step_SET :: "Name \<Rightarrow> State \<Rightarrow> Failure + State" where
  "step_SET name s =
     (let (n, evaluation) = s in
      andThen (popOperand (currentFrame evaluation)) (\<lambda>(valueId, f).
      andThen (popOperand f) (\<lambda>(selfId, f).
      andThen (getInstance (instances evaluation) selfId) (\<lambda>self.
      Inr (n, (setCurrentFrame f evaluation)\<lparr>instances := (instances evaluation)
             (selfId \<mapsto> self\<lparr>obj_fields := setProperty name valueId (obj_fields self)\<rparr>)\<rparr>)))))"

definition step_SWAP :: "State \<Rightarrow> Failure + State" where
  "step_SWAP s =
     (let (n, evaluation) = s in
      andThen (popOperand (currentFrame evaluation)) (\<lambda>(a, f).
      andThen (popOperand f) (\<lambda>(b, f).
      Inr (n, setCurrentFrame (pushOperand b (pushOperand a f)) evaluation))))"

definition step_INSTANTIATE :: "Host \<Rightarrow> Name \<Rightarrow> InnerValue \<Rightarrow> State \<Rightarrow> Failure + State" where
  "step_INSTANTIATE host m v s =
     andThen (addInstance host m v s) (\<lambda>(i, n, evaluation).
     Inr (n, setCurrentFrame (pushOperand i (currentFrame evaluation)) evaluation))"

definition step_INHERITS :: "Name \<Rightarrow> State \<Rightarrow> Failure + State" where
  "step_INHERITS m s =
     (let (n, evaluation) = s; env = environment evaluation in
      andThen (popOperand (currentFrame evaluation)) (\<lambda>(selfId, f).
      andThen (getInstance (instances evaluation) selfId) (\<lambda>self.
      Inr (n, setCurrentFrame
        (pushOperand
           (if inherits env (resolve env (Some (module self))) (resolve env (Some m))
            then TRUE_ID else FALSE_ID) f)
        evaluation))))"

text \<open>
  The branch shared by \<open>CONDITIONAL_JUMP\<close> and \<open>IF_THEN_ELSE\<close>:
  \<open>interrupt('exception', addInstance('wollok.lang.BadParameterException'))\<close>.
\<close>

definition raiseBadParameter :: "Host \<Rightarrow> State \<Rightarrow> Failure + State" where
  "raiseBadParameter host s =
     andThen (addInstance host ''wollok.lang.BadParameterException'' Undefined s)
       (\<lambda>(i, n, evaluation).
     andThen (interrupt exception i evaluation) (\<lambda>evaluation'. Inr (n, evaluation')))"

definition step_CONDITIONAL_JUMP :: "Host \<Rightarrow> int \<Rightarrow> State \<Rightarrow> Failure + State" where
  "step_CONDITIONAL_JUMP host count s =
     (let (n, evaluation) = s in
      andThen (popOperand (currentFrame evaluation)) (\<lambda>(check, f).
      if check \<noteq> TRUE_ID \<and> check \<noteq> FALSE_ID
      then raiseBadParameter host (n, setCurrentFrame f evaluation)
      else if int (nextInstruction f) + count \<ge> int (length (instructions f)) \<or> count < 0
      then Inl (InvalidJumpCount count)
      else Inr (n, setCurrentFrame
        (f\<lparr>nextInstruction :=
             nat (int (nextInstruction f) + (if check = FALSE_ID then count else 0))\<rparr>)
        evaluation)))"

text \<open>
  \<open>CALL\<close>. A falsy \<open>lookupStart\<close> (absent or empty) starts the lookup at the receiver's
  module. \<open>messageNotUnderstood.body!\<close> and \<open>method.body!\<close> are not checked by the source:
  on \<open>undefined\<close> the access, or \<open>node.id\<close> in the key of \<open>compile\<close>, is a \<open>TypeError\<close>.
\<close>

definition call_lookupStart :: "Environment \<Rightarrow> RuntimeObject \<Rightarrow> Name option \<Rightarrow> Name option" where
  "call_lookupStart env self lookupStart =
     (case lookupStart of
        None \<Rightarrow> Some (module self)
      | Some l \<Rightarrow>
          if truthy l then
            let ownHierarchy = map (\<lambda>c. fullyQualifiedName env (class_id c))
                                 (hierarchy env (resolve env (Some (module self))));
                start = findIndex (\<lambda>fqn. fqn = l) ownHierarchy
            in at ownHierarchy (start + 1)
          else Some (module self))"

definition call_messageNotUnderstood ::
  "Host \<Rightarrow> Name \<Rightarrow> Id list \<Rightarrow> Id \<Rightarrow> RuntimeObject \<Rightarrow> State \<Rightarrow> Failure + State" where
  "call_messageNotUnderstood host message argIds selfId self s =
     (let env = environment (snd s);
          messageNotUnderstood =
            methodLookup env ''messageNotUnderstood'' 2 (resolve env (Some (module self)))
      in
      andThen (addInstance host ''wollok.lang.String'' (String message) s) (\<lambda>(nameId, s').
      andThen (addInstance host ''wollok.lang.List'' (Ids argIds) s') (\<lambda>(argsId, n, evaluation).
      case messageNotUnderstood of
        None \<Rightarrow> Inl TypeError
      | Some mnu \<Rightarrow>
          (case method_body mnu of
             None \<Rightarrow> Inl TypeError
           | Some body \<Rightarrow>
               Inr (n, pushFrame
                 \<lparr>instructions = compile_Body env body,
                  nextInstruction = 0,
                  locals = (zipObj (map parameter_name (method_parameters mnu)) [nameId, argsId])
                             (''self'' \<mapsto> selfId),
                  operandStack = [],
                  resume = []\<rparr>
                 (setCurrentFrame (addResume return (currentFrame evaluation)) evaluation))))))"

definition call_method :: "Host \<Rightarrow> Method \<Rightarrow> Id list \<Rightarrow> Id \<Rightarrow> State \<Rightarrow> Failure + State" where
  "call_method host method argIds selfId s =
     (let env = environment (snd s) in
      andThen (bindParameters host (method_parameters method) argIds selfId s)
        (\<lambda>(locals', n, evaluation).
      case method_body method of
        None \<Rightarrow> Inl TypeError
      | Some body \<Rightarrow>
          Inr (n, pushFrame
            \<lparr>instructions = compile_Body env body @ [PUSH VOID_ID, INTERRUPT return],
             nextInstruction = 0,
             locals = locals',
             operandStack = [],
             resume = []\<rparr>
            (setCurrentFrame (addResume return (currentFrame evaluation)) evaluation))))"

definition step_CALL ::
  "Host \<Rightarrow> Natives \<Rightarrow> Name \<Rightarrow> nat \<Rightarrow> Name option \<Rightarrow> State \<Rightarrow> Failure + State" where
  "step_CALL host natives message arity lookupStart s =
     (let (n, evaluation) = s; env = environment evaluation in
      andThen (popOperands arity (currentFrame evaluation)) (\<lambda>(popped, f).
      let argIds = rev popped in
      andThen (popOperand f) (\<lambda>(selfId, f).
      andThen (getInstance (instances evaluation) selfId) (\<lambda>self.
      let s' = (n, setCurrentFrame f evaluation) in
      case methodLookup env message arity (resolve env (call_lookupStart env self lookupStart)) of
        None \<Rightarrow> call_messageNotUnderstood host message argIds selfId self s'
      | Some method \<Rightarrow>
          if isNative method
          then natives method self (map (instances evaluation) argIds) s'
          else call_method host method argIds selfId s'))))"

text \<open>\<open>INIT\<close>. \<open>allFields\<close> is the \<open>reduce\<close> over the hierarchy of the receiver's module.\<close>

definition allFields :: "Environment \<Rightarrow> RuntimeObject \<Rightarrow> Field list" where
  "allFields env self =
     foldl (\<lambda>fs m. fieldsOf m @ fs) [] (hierarchy env (resolve env (Some (module self))))"

definition init_fields :: "Environment \<Rightarrow> Field list \<Rightarrow> Instruction list" where
  "init_fields env fs =
     concat (map (\<lambda>fld. [LOAD ''self''] @ compile env (field_value fld) @ [SET (field_name fld)]) fs)"

definition init_baseCall ::
  "Environment \<Rightarrow> Constructor \<Rightarrow> Class option \<Rightarrow> Name \<Rightarrow> Instruction list" where
  "init_baseCall env c ownSuperclass lookupStart =
     (if ownSuperclass \<noteq> None \<or> \<not> callsSuper (baseCall c)
      then concat (map (compile env) (baseCall_args (baseCall c))) @
           [LOAD ''self'',
            INIT (length (baseCall_args (baseCall c)))
              (case ownSuperclass of
                 Some sc \<Rightarrow> if callsSuper (baseCall c)
                            then fullyQualifiedName env (class_id sc) else lookupStart
               | None \<Rightarrow> lookupStart)
              False]
      else [])"

definition step_INIT :: "Host \<Rightarrow> nat \<Rightarrow> Name \<Rightarrow> bool \<Rightarrow> State \<Rightarrow> Failure + State" where
  "step_INIT host arity lookupStartName initFields s =
     (let (n, evaluation) = s; env = environment evaluation in
      andThen (popOperand (currentFrame evaluation)) (\<lambda>(selfId, f).
      andThen (popOperands arity f) (\<lambda>(popped, f).
      let argIds = rev popped in
      andThen (getInstance (instances evaluation) selfId) (\<lambda>self.
      let lookupStart = resolve env (Some lookupStartName);
          ownSuperclass = superclass env lookupStart
      in
      case constructorLookup env arity lookupStart of
        None \<Rightarrow> Inl (MissingConstructor arity (fullyQualifiedName env (class_id lookupStart)))
      | Some c \<Rightarrow>
          andThen (bindParameters host (constructor_parameters c) argIds selfId
                     (n, setCurrentFrame f evaluation)) (\<lambda>(locals', n', evaluation').
          Inr (n', pushFrame
            \<lparr>instructions =
               (if initFields then init_fields env (allFields env self) else []) @
               init_baseCall env c ownSuperclass lookupStartName @
               compile_Body env (constructor_body c) @
               [LOAD ''self'', INTERRUPT return],
             nextInstruction = 0,
             locals = locals',
             operandStack = [],
             resume = []\<rparr>
            (setCurrentFrame (addResume return (currentFrame evaluation')) evaluation')))))))"

definition step_IF_THEN_ELSE ::
  "Host \<Rightarrow> Instruction list \<Rightarrow> Instruction list \<Rightarrow> State \<Rightarrow> Failure + State" where
  "step_IF_THEN_ELSE host thenHandler elseHandler s =
     (let (n, evaluation) = s in
      andThen (popOperand (currentFrame evaluation)) (\<lambda>(check, f).
      if check \<noteq> TRUE_ID \<and> check \<noteq> FALSE_ID
      then raiseBadParameter host (n, setCurrentFrame f evaluation)
      else Inr (n, pushFrame
        (emptyFrame ([PUSH VOID_ID] @ (if check = TRUE_ID then thenHandler else elseHandler) @
                     [INTERRUPT result]))
        (setCurrentFrame (addResume result f) evaluation))))"

definition step_TRY_CATCH_ALWAYS ::
  "Instruction list \<Rightarrow> Instruction list \<Rightarrow> Instruction list \<Rightarrow> State \<Rightarrow> Failure + State" where
  "step_TRY_CATCH_ALWAYS body catchHandler alwaysHandler s =
     (let (n, evaluation) = s in
      Inr (n,
        pushFrame (emptyFrame ([PUSH VOID_ID] @ body @ [INTERRUPT result]))
        (pushFrame ((emptyFrame ([STORE ''<exception>'' False] @ catchHandler @
                                 [LOAD ''<exception>'', INTERRUPT exception]))
                      \<lparr>resume := [exception]\<rparr>)
        (pushFrame ((emptyFrame ([STORE ''<previous_interruption>'' False] @ alwaysHandler @
                                 [LOAD ''<previous_interruption>'', RESUME_INTERRUPTION]))
                      \<lparr>resume := [result, return, exception]\<rparr>)
        (setCurrentFrame (addResume result (currentFrame evaluation)) evaluation)))))"

definition step_INTERRUPT :: "Interruption \<Rightarrow> State \<Rightarrow> Failure + State" where
  "step_INTERRUPT interruption s =
     (let (n, evaluation) = s in
      andThen (popOperand (currentFrame evaluation)) (\<lambda>(valueId, f).
      andThen (interrupt interruption valueId (setCurrentFrame f evaluation)) (\<lambda>evaluation'.
      Inr (n, evaluation'))))"

text \<open>
  \<open>RESUME_INTERRUPTION\<close>. With two entries in \<open>resume\<close> one of the three interruptions is
  always missing, so the \<open>find\<close> succeeds; its \<open>None\<close> case is not reachable.
\<close>

definition step_RESUME_INTERRUPTION :: "State \<Rightarrow> Failure + State" where
  "step_RESUME_INTERRUPTION s =
     (let (n, evaluation) = s; f = currentFrame evaluation in
      if length (resume f) \<noteq> 2 then Inl CannotInferInterruption
      else case List.find (\<lambda>interruption. interruption \<notin> set (resume f))
                  [exception, return, result] of
        None \<Rightarrow> Inl TypeError
      | Some lastInterruption \<Rightarrow>
          andThen (popOperand f) (\<lambda>(valueId, f).
          andThen (interrupt lastInterruption valueId (setCurrentFrame f evaluation))
            (\<lambda>evaluation'. Inr (n, evaluation'))))"

fun execute :: "Host \<Rightarrow> Natives \<Rightarrow> Instruction \<Rightarrow> State \<Rightarrow> Failure + State" where
  "execute host natives (LOAD name) s = step_LOAD name s"
| "execute host natives (STORE name lookup) s = step_STORE name lookup s"
| "execute host natives (PUSH i) s = step_PUSH i s"
| "execute host natives (GET name) s = step_GET name s"
| "execute host natives (SET name) s = step_SET name s"
| "execute host natives SWAP s = step_SWAP s"
| "execute host natives (INSTANTIATE m v) s = step_INSTANTIATE host m v s"
| "execute host natives (INHERITS m) s = step_INHERITS m s"
| "execute host natives (CONDITIONAL_JUMP count) s = step_CONDITIONAL_JUMP host count s"
| "execute host natives (CALL message arity lookupStart) s =
     step_CALL host natives message arity lookupStart s"
| "execute host natives (INIT arity lookupStart initFields) s =
     step_INIT host arity lookupStart initFields s"
| "execute host natives (IF_THEN_ELSE thenHandler elseHandler) s =
     step_IF_THEN_ELSE host thenHandler elseHandler s"
| "execute host natives (TRY_CATCH_ALWAYS body catchHandler alwaysHandler) s =
     step_TRY_CATCH_ALWAYS body catchHandler alwaysHandler s"
| "execute host natives (INTERRUPT interruption) s = step_INTERRUPT interruption s"
| "execute host natives RESUME_INTERRUPTION s = step_RESUME_INTERRUPTION s"

text \<open>
  \<open>step\<close>. \<open>Operations(evaluation)\<close> reads \<open>last(frameStack)!.operandStack\<close> before the
  test for an empty frame stack, so an empty frame stack is a \<open>TypeError\<close> and
  \<open>'Reached end of frame stack'\<close> is never thrown.
\<close>

definition step :: "Host \<Rightarrow> Natives \<Rightarrow> State \<Rightarrow> Failure + State" where
  "step host natives s =
     (let (n, evaluation) = s in
      if frameStack evaluation = [] then Inl TypeError
      else
        let f = currentFrame evaluation in
        case at (instructions f) (int (nextInstruction f)) of
          None \<Rightarrow> Inl ReachedEndOfInstructions
        | Some instruction \<Rightarrow>
            execute host natives instruction
              (n, setCurrentFrame (f\<lparr>nextInstruction := nextInstruction f + 1\<rparr>) evaluation))"

subsection \<open>Evaluation\<close>


definition buildEvaluationFor :: "Environment \<Rightarrow> Evaluation" where
  "buildEvaluationFor env =
     (let singletons = globalSingletons env;
          insts = foldl (\<lambda>all instance. all(id instance \<mapsto> instance)) Map.empty
            ([\<lparr>id = NULL_ID, module = ''wollok.lang.Object'', obj_fields = Map.empty,
               innerValue = Null\<rparr>,
              \<lparr>id = TRUE_ID, module = ''wollok.lang.Boolean'', obj_fields = Map.empty,
               innerValue = Boolean True\<rparr>,
              \<lparr>id = FALSE_ID, module = ''wollok.lang.Boolean'', obj_fields = Map.empty,
               innerValue = Boolean False\<rparr>] @
             map (\<lambda>m. \<lparr>id = singleton_id m,
                        module = fullyQualifiedName env (singleton_id m),
                        obj_fields = Map.empty, innerValue = Undefined\<rparr>) singletons);
          locals' = [''null'' \<mapsto> NULL_ID, ''true'' \<mapsto> TRUE_ID, ''false'' \<mapsto> FALSE_ID] ++
            foldl (\<lambda>all singleton.
                     all(fullyQualifiedName env (singleton_id singleton) \<mapsto> singleton_id singleton))
              Map.empty singletons
      in \<lparr>environment = env,
          frameStack =
            [\<lparr>instructions = concat (map (\<lambda>singleton.
                 concat (map (compile env) (superCall_args singleton)) @
                 [PUSH (singleton_id singleton),
                  INIT (length (superCall_args singleton))
                    (fullyQualifiedName env
                       (node_id (resolveTarget env (superCall_superclass singleton))))
                    True]) singletons),
              nextInstruction = 0,
              locals = locals',
              operandStack = [],
              resume = []\<rparr>],
          instances = insts\<rparr>)"

text \<open>
  The driver's loops call \<open>step\<close> again and again; \<open>steps k\<close> is \<open>k\<close> calls in a row,
  stopping at the first error.
\<close>

fun steps :: "Host \<Rightarrow> Natives \<Rightarrow> nat \<Rightarrow> State \<Rightarrow> Failure + State" where
  "steps host natives 0 s = Inr s"
| "steps host natives (Suc k) s = andThen (step host natives s) (steps host natives k)"

subsection \<open>Vocabulary of the properties\<close>

text \<open>
  \<open>executing evaluation instruction\<close>: the next call of \<open>step\<close> fetches \<open>instruction\<close>.
  \<open>advance\<close> is the evaluation after \<open>currentFrame.nextInstruction++\<close>.
\<close>

definition executing :: "Evaluation \<Rightarrow> Instruction \<Rightarrow> bool" where
  "executing evaluation instruction =
     (frameStack evaluation \<noteq> [] \<and>
      at (instructions (currentFrame evaluation)) (int (nextInstruction (currentFrame evaluation)))
        = Some instruction)"

definition advance :: "Evaluation \<Rightarrow> Evaluation" where
  "advance evaluation =
     setCurrentFrame
       ((currentFrame evaluation)\<lparr>nextInstruction := nextInstruction (currentFrame evaluation) + 1\<rparr>)
       evaluation"

text \<open>
  \<open>undisturbed evaluation evaluation'\<close>: no frame of \<open>evaluation\<close> is missing in
  \<open>evaluation'\<close>, and the frames below the current one have the operand stacks and the resume
  sets they had.
\<close>

definition undisturbed :: "Evaluation \<Rightarrow> Evaluation \<Rightarrow> bool" where
  "undisturbed evaluation evaluation' =
     (length (frameStack evaluation) \<le> length (frameStack evaluation') \<and>
      (\<forall>j. j < length (frameStack evaluation) - 1 \<longrightarrow>
         operandStack (frameStack evaluation' ! j) = operandStack (frameStack evaluation ! j) \<and>
         resume (frameStack evaluation' ! j) = resume (frameStack evaluation ! j)))"

subsection \<open>A sample program\<close>

text \<open>
  A two-class program, a host and a registry of natives, on which the theorems below are
  instantiated. Modules are identified by their fully qualified names.
\<close>

definition sampleMessageNotUnderstood :: Method where
  "sampleMessageNotUnderstood =
     \<lparr>method_id = ''m0'', method_name = ''messageNotUnderstood'',
      method_parameters = [\<lparr>parameter_name = ''name'', isVarArg = False\<rparr>,
                           \<lparr>parameter_name = ''parameters'', isVarArg = False\<rparr>],
      isNative = False, method_body = Some (Body [Throw Self])\<rparr>"

definition sampleMove :: Method where
  "sampleMove =
     \<lparr>method_id = ''m1'', method_name = ''move'',
      method_parameters = [\<lparr>parameter_name = ''dx'', isVarArg = False\<rparr>,
                           \<lparr>parameter_name = ''dy'', isVarArg = False\<rparr>],
      isNative = False,
      method_body = Some (Body [Return (Some (ReferenceTo (Reference ''r1'' ''dx'')))])\<rparr>"

definition sampleSum :: Method where
  "sampleSum =
     \<lparr>method_id = ''m2'', method_name = ''sum'',
      method_parameters = [\<lparr>parameter_name = ''first'', isVarArg = False\<rparr>,
                           \<lparr>parameter_name = ''rest'', isVarArg = True\<rparr>],
      isNative = False, method_body = Some (Body [Return None])\<rparr>"

definition sampleIdentity :: Method where
  "sampleIdentity =
     \<lparr>method_id = ''m3'', method_name = ''identity'', method_parameters = [],
      isNative = True, method_body = None\<rparr>"

definition sampleConstructor :: Constructor where
  "sampleConstructor =
     \<lparr>constructor_parameters = [],
      baseCall = \<lparr>callsSuper = True, baseCall_args = []\<rparr>,
      constructor_body = Body []\<rparr>"

definition sampleObject :: Class where
  "sampleObject =
     \<lparr>class_id = ''wollok.lang.Object'',
      members = [MethodMember sampleMessageNotUnderstood, MethodMember sampleIdentity,
                 FieldMember \<lparr>field_name = ''o'', field_value = Literal LiteralNull\<rparr>,
                 ConstructorMember sampleConstructor]\<rparr>"

definition samplePoint :: Class where
  "samplePoint =
     \<lparr>class_id = ''Point'',
      members = [FieldMember \<lparr>field_name = ''x'', field_value = Literal LiteralNull\<rparr>,
                 MethodMember sampleMove,
                 FieldMember \<lparr>field_name = ''y'', field_value = Literal (LiteralBoolean True)\<rparr>,
                 MethodMember sampleSum,
                 ConstructorMember sampleConstructor]\<rparr>"

definition sampleEnvironment :: Environment where
  "sampleEnvironment =
     \<lparr>environment_id = ''e0'',
      resolve = (\<lambda>fqn. if fqn = Some ''Point'' then samplePoint else sampleObject),
      resolveTarget = (\<lambda>r. \<lparr>node_id = reference_name r, node_kind = ModuleKind\<rparr>),
      fullyQualifiedName = (\<lambda>i. i),
      hierarchy = (\<lambda>c. if class_id c = ''Point'' then [samplePoint, sampleObject]
                         else [sampleObject]),
      superclass = (\<lambda>c. if class_id c = ''Point'' then Some sampleObject else None),
      inherits = (\<lambda>c d. class_id c = class_id d \<or> class_id d = ''wollok.lang.Object''),
      methodLookup = (\<lambda>name arity c.
        if name = ''messageNotUnderstood'' \<and> arity = 2 then Some sampleMessageNotUnderstood
        else if name = ''identity'' \<and> arity = 0 then Some sampleIdentity
        else if class_id c = ''Point'' \<and> name = ''move'' \<and> arity = 2 then Some sampleMove
        else if class_id c = ''Point'' \<and> name = ''sum'' \<and> 1 \<le> arity then Some sampleSum
        else None),
      constructorLookup = (\<lambda>arity c. if arity = 0 then Some sampleConstructor else None),
      enclosingMethod = (\<lambda>node. sampleMove),
      parentOf = (\<lambda>m. samplePoint),
      globalSingletons =
        [\<lparr>singleton_id = ''game'',
          superCall_superclass = Reference ''r0'' ''wollok.lang.Object'',
          superCall_args = []\<rparr>]\<rparr>"

definition sampleHost :: Host where
  "sampleHost = \<lparr>uuid = (\<lambda>n. ''uuid-'' @ replicate n (CHR ''i'')), toFixed4 = (\<lambda>x. x)\<rparr>"

text \<open>The sample natives answer \<open>void\<close>: they push it on the current operand stack.\<close>

definition sampleNatives :: Natives where
  "sampleNatives =
     (\<lambda>method self args (n, evaluation).
        Inr (n, setCurrentFrame (pushOperand VOID_ID (currentFrame evaluation)) evaluation))"

definition sampleInstances :: "Id \<rightharpoonup> RuntimeObject" where
  "sampleInstances =
     [''p'' \<mapsto> \<lparr>id = ''p'', module = ''Point'', obj_fields = [''x'' \<mapsto> ''a''],
                innerValue = Undefined\<rparr>,
      ''a'' \<mapsto> \<lparr>id = ''a'', module = ''wollok.lang.Object'', obj_fields = Map.empty,
                innerValue = Undefined\<rparr>,
      ''b'' \<mapsto> \<lparr>id = ''b'', module = ''wollok.lang.Object'', obj_fields = Map.empty,
                innerValue = Undefined\<rparr>]"

text \<open>
  An evaluation of two frames: the outer one binds \<open>x\<close>, the current one has the given
  locals and operand stack and is about to execute the given instruction.
\<close>

definition sampleEvaluation :: "Instruction \<Rightarrow> Locals \<Rightarrow> Id list \<Rightarrow> Evaluation" where
  "sampleEvaluation instruction ls stack =
     \<lparr>environment = sampleEnvironment,
      frameStack =
        [\<lparr>instructions = [], nextInstruction = 0, locals = [''x'' \<mapsto> ''a''],
          operandStack = [], resume = [return]\<rparr>,
         \<lparr>instructions = [instruction], nextInstruction = 0, locals = ls,
          operandStack = stack, resume = []\<rparr>],
      instances = sampleInstances\<rparr>"


text \<open>The module of the instance stored under an id, if there is one.\<close>

definition moduleOf :: "Evaluation \<Rightarrow> Id \<Rightarrow> Name option" where
  "moduleOf evaluation i = map_option module (instances evaluation i)"

subsection \<open>Cloning in memory\<close>

text \<open>
  \<open>cloneEvaluation\<close> above is a function of values, and a value has no identity: it cannot
  say which containers a clone shares with its original. For that the objects of an
  evaluation are laid out in a memory of cells, one for every mutable object or array the
  source creates: a \<open>Locals\<close> object (the locals of a frame, the fields of an instance), an
  operand stack, a resume array, a frame, a frame stack, a runtime object, an \<open>instances\<close>
  object with its keys in the order of \<open>Object.keys\<close>. A frame, a frame stack, a runtime
  object and an \<open>instances\<close> object refer to their parts by address. Instruction lists, the
  environment and inner values are kept as values: the source never updates them in place.
\<close>

type_synonym addr = nat

datatype Cell
  = LocalsCell Locals
  | IdsCell "Id list"
  | ResumeCell "Interruption list"
  | FrameCell "Instruction list" nat addr addr addr
  | FramesCell "addr list"
  | ObjectCell Id Name addr InnerValue
  | InstancesCell "(Id \<times> addr) list"

record Memory =
  cells :: "addr \<rightharpoonup> Cell"
  nextFree :: addr

text \<open>An object or array literal allocates a cell at the next free address.\<close>

definition alloc :: "Cell \<Rightarrow> Memory \<Rightarrow> addr \<times> Memory" where
  "alloc c m = (nextFree m, \<lparr>cells = (cells m)(nextFree m \<mapsto> c), nextFree = Suc (nextFree m)\<rparr>)"













definition sameCells :: "Memory \<Rightarrow> Memory \<Rightarrow> addr \<Rightarrow> addr \<Rightarrow> bool" where
  "sameCells m m' lo hi = (\<forall>a. lo \<le> a \<and> a < hi \<longrightarrow> cells m' a = cells m a)"




section \<open>Properties\<close>

subsection \<open>Basic facts\<close>

lemma andThen_simps [simp]:
  "andThen (Inl e) k = Inl e"
  "andThen (Inr x) k = k x"
  by (simp_all add: andThen_def)

lemma step_executing:
  "executing evaluation instruction \<Longrightarrow>
   step host natives (n, evaluation) = execute host natives instruction (n, advance evaluation)"
  by (simp add: step_def executing_def advance_def Let_def)

lemma popOperand_snoc:
  "operandStack f = st @ [x] \<Longrightarrow> truthy x \<Longrightarrow> popOperand f = Inr (x, f\<lparr>operandStack := st\<rparr>)"
  by (simp add: popOperand_def)

lemma currentFrame_setCurrentFrame [simp]: "currentFrame (setCurrentFrame f evaluation) = f"
  by (simp add: currentFrame_def setCurrentFrame_def)

lemma currentFrame_advance:
  "currentFrame (advance evaluation) =
     (currentFrame evaluation)\<lparr>nextInstruction := nextInstruction (currentFrame evaluation) + 1\<rparr>"
  by (simp add: advance_def)

lemma instances_setCurrentFrame [simp]:
  "instances (setCurrentFrame f evaluation) = instances evaluation"
  by (simp add: setCurrentFrame_def)

lemma instances_advance [simp]: "instances (advance evaluation) = instances evaluation"
  by (simp add: advance_def)

lemma setCurrentFrame_twice [simp]:
  "setCurrentFrame f (setCurrentFrame g evaluation) = setCurrentFrame f evaluation"
  by (simp add: setCurrentFrame_def)

lemma executing_sampleEvaluation:
  "executing (sampleEvaluation instruction ls stack) instruction"
  by (simp add: executing_def sampleEvaluation_def currentFrame_def at_def)

lemma currentFrame_sampleEvaluation:
  "currentFrame (sampleEvaluation instruction ls stack) =
     \<lparr>instructions = [instruction], nextInstruction = 0, locals = ls,
      operandStack = stack, resume = []\<rparr>"
  by (simp add: sampleEvaluation_def currentFrame_def)

lemma sampleInstances_p:
  "sampleInstances ''p'' = Some \<lparr>id = ''p'', module = ''Point'', obj_fields = [''x'' \<mapsto> ''a''],
                innerValue = Undefined\<rparr>"
  by (simp add: sampleInstances_def)

subsection \<open>Plain objects\<close>

lemma inherited_names:
  "inherited name \<noteq> None \<longleftrightarrow>
   name \<in> {''constructor'', ''__defineGetter__'', ''__defineSetter__'', ''hasOwnProperty'',
           ''__lookupGetter__'', ''__lookupSetter__'', ''isPrototypeOf'',
           ''propertyIsEnumerable'', ''toString'', ''valueOf'', ''__proto__'',
           ''toLocaleString''}"
  by (simp add: inherited_def objectPrototype_def)

lemma inherited_truthy: "inherited name = Some v \<Longrightarrow> truthy v \<and> v \<noteq> TRUE_ID \<and> v \<noteq> FALSE_ID"
  by (auto simp: inherited_def objectPrototype_def truthy_def TRUE_ID_def FALSE_ID_def
      split: if_splits)

lemma getProperty_own: "inherited name = None \<Longrightarrow> getProperty obj name = obj name"
  by (simp add: getProperty_def split: option.split)

lemma hasProperty_own: "inherited name = None \<Longrightarrow> hasProperty name obj \<longleftrightarrow> name \<in> dom obj"
  by (auto simp: hasProperty_def)

lemma setProperty_own: "inherited name = None \<Longrightarrow> setProperty name v obj = obj(name \<mapsto> v)"
  by (auto simp: setProperty_def inherited_def objectPrototype_def)

lemma getProperty_message [simp]: "getProperty obj ''message'' = obj ''message''"
  by (simp add: getProperty_own inherited_def objectPrototype_def)

subsection \<open>Fields: SET and GET\<close>

text \<open>
  For a name that no plain object inherits, \<open>SET(name)\<close> pops the value and then the
  receiver and writes the field, whether or not the receiver already has it, and \<open>GET(name)\<close>
  on an instance fails with \<open>Access to undefined field\<close> exactly when the instance has no
  such field. Ids are non-empty strings (\<open>popOperand\<close> rejects the empty one, so \<open>SET\<close>
  never stores it).
\<close>

lemma SET_creates_field_GET_needs_field:
  "(executing e1 (SET name) \<and>
    operandStack (currentFrame e1) = st1 @ [selfId, valueId] \<and> truthy selfId \<and> truthy valueId \<and>
    instances e1 selfId = Some self \<and> inherited name = None
    \<longrightarrow> step host natives (n, e1) =
          Inr (n, (setCurrentFrame ((currentFrame (advance e1))\<lparr>operandStack := st1\<rparr>) e1)
                    \<lparr>instances := (instances e1)
                       (selfId \<mapsto> self\<lparr>obj_fields := (obj_fields self)(name \<mapsto> valueId)\<rparr>)\<rparr>))
   \<and>
   (executing e2 (GET name) \<and>
    operandStack (currentFrame e2) = st2 @ [selfId] \<and> truthy selfId \<and>
    instances e2 selfId = Some self \<and> obj_fields self name \<noteq> Some [] \<and> inherited name = None
    \<longrightarrow> (step host natives (m, e2) = Inl (UndefinedField (module self) name)
          \<longleftrightarrow> obj_fields self name = None))"
proof (intro conjI impI)
  assume h: "executing e1 (SET name) \<and>
    operandStack (currentFrame e1) = st1 @ [selfId, valueId] \<and> truthy selfId \<and> truthy valueId \<and>
    instances e1 selfId = Some self \<and> inherited name = None"
  let ?f = "currentFrame (advance e1)"
  from h have st: "operandStack ?f = (st1 @ [selfId]) @ [valueId]"
    by (simp add: currentFrame_advance)
  have p1: "popOperand ?f = Inr (valueId, ?f\<lparr>operandStack := st1 @ [selfId]\<rparr>)"
    using popOperand_snoc [OF st] h by simp
  have p2: "popOperand (?f\<lparr>operandStack := st1 @ [selfId]\<rparr>) =
            Inr (selfId, ?f\<lparr>operandStack := st1\<rparr>)"
    using popOperand_snoc [of "?f\<lparr>operandStack := st1 @ [selfId]\<rparr>" st1 selfId] h by simp
  from h have "step host natives (n, e1) = step_SET name (n, advance e1)"
    using step_executing [of e1 "SET name" host natives n] by simp
  also have "\<dots> = Inr (n, (setCurrentFrame (?f\<lparr>operandStack := st1\<rparr>) (advance e1))
                    \<lparr>instances := (instances e1)
                       (selfId \<mapsto> self\<lparr>obj_fields := (obj_fields self)(name \<mapsto> valueId)\<rparr>)\<rparr>)"
    using h by (simp add: step_SET_def p1 p2 getInstance_def setProperty_own)
  finally show "step host natives (n, e1) =
          Inr (n, (setCurrentFrame ((currentFrame (advance e1))\<lparr>operandStack := st1\<rparr>) e1)
                    \<lparr>instances := (instances e1)
                       (selfId \<mapsto> self\<lparr>obj_fields := (obj_fields self)(name \<mapsto> valueId)\<rparr>)\<rparr>)"
    by (simp add: advance_def)
next
  assume h: "executing e2 (GET name) \<and>
    operandStack (currentFrame e2) = st2 @ [selfId] \<and> truthy selfId \<and>
    instances e2 selfId = Some self \<and> obj_fields self name \<noteq> Some [] \<and> inherited name = None"
  let ?f = "currentFrame (advance e2)"
  from h have st: "operandStack ?f = st2 @ [selfId]"
    by (simp add: currentFrame_advance)
  have p1: "popOperand ?f = Inr (selfId, ?f\<lparr>operandStack := st2\<rparr>)"
    using popOperand_snoc [OF st] h by simp
  from h have "step host natives (m, e2) = step_GET name (m, advance e2)"
    using step_executing [of e2 "GET name" host natives m] by simp
  with h show "step host natives (m, e2) = Inl (UndefinedField (module self) name)
          \<longleftrightarrow> obj_fields self name = None"
    by (auto simp: step_GET_def p1 getInstance_def truthy_def getProperty_own
        split: option.splits)
qed

text \<open>
  C10. The claim fails on the names that a plain object inherits from \<open>Object.prototype\<close>.
  The instance \<open>p\<close> of the sample has the one field \<open>x\<close>. \<open>GET('toString')\<close> on it finds
  the inherited member, which is truthy, and does not fail: the step returns with the member
  on the operand stack. \<open>SET('__proto__')\<close> on it calls the inherited setter, which ignores
  an id: the step returns and \<open>p\<close> has no more fields than before.
\<close>

theorem GET_SET_inherited_name:
  "obj_fields (the (sampleInstances ''p'')) ''toString'' = None \<and>
   step sampleHost sampleNatives (0, sampleEvaluation (GET ''toString'') Map.empty [''p'']) =
     Inr (0, setCurrentFrame
       \<lparr>instructions = [GET ''toString''], nextInstruction = 1, locals = Map.empty,
        operandStack = [''function toString() { [native code] }''], resume = []\<rparr>
       (sampleEvaluation (GET ''toString'') Map.empty [''p''])) \<and>
   obj_fields (the (sampleInstances ''p'')) ''__proto__'' = None \<and>
   step sampleHost sampleNatives (0, sampleEvaluation (SET ''__proto__'') Map.empty [''p'', ''b'']) =
     Inr (0, setCurrentFrame
       \<lparr>instructions = [SET ''__proto__''], nextInstruction = 1, locals = Map.empty,
        operandStack = [], resume = []\<rparr>
       (sampleEvaluation (SET ''__proto__'') Map.empty [''p'', ''b'']))"
proof (intro conjI)
  show "obj_fields (the (sampleInstances ''p'')) ''toString'' = None"
    by (simp add: sampleInstances_p)
  show "obj_fields (the (sampleInstances ''p'')) ''__proto__'' = None"
    by (simp add: sampleInstances_p)
  let ?e = "sampleEvaluation (GET ''toString'') Map.empty [''p'']"
  have i: "instances ?e ''p'' = sampleInstances ''p''"
    by (simp add: sampleEvaluation_def)
  have p: "popOperand (currentFrame (advance ?e)) =
           Inr (''p'', (currentFrame (advance ?e))\<lparr>operandStack := []\<rparr>)"
    by (rule popOperand_snoc [of _ "[]", simplified])
       (simp_all add: currentFrame_advance currentFrame_sampleEvaluation truthy_def)
  have g: "getProperty [''x'' \<mapsto> ''a''] ''toString'' = Some ''function toString() { [native code] }''"
    by (simp add: getProperty_def inherited_def objectPrototype_def)
  have "step sampleHost sampleNatives (0, ?e) = step_GET ''toString'' (0, advance ?e)"
    using step_executing [OF executing_sampleEvaluation, of sampleHost sampleNatives 0
        "GET ''toString''" Map.empty "[''p'']"] by simp
  also have "\<dots> = Inr (0, setCurrentFrame
       (pushOperand ''function toString() { [native code] }''
          ((currentFrame (advance ?e))\<lparr>operandStack := []\<rparr>)) (advance ?e))"
    by (simp add: step_GET_def p getInstance_def i sampleInstances_p g truthy_def)
  also have "\<dots> = Inr (0, setCurrentFrame
       \<lparr>instructions = [GET ''toString''], nextInstruction = 1, locals = Map.empty,
        operandStack = [''function toString() { [native code] }''], resume = []\<rparr> ?e)"
    by (simp add: advance_def pushOperand_def currentFrame_sampleEvaluation)
  finally show "step sampleHost sampleNatives (0, ?e) = Inr (0, setCurrentFrame
       \<lparr>instructions = [GET ''toString''], nextInstruction = 1, locals = Map.empty,
        operandStack = [''function toString() { [native code] }''], resume = []\<rparr> ?e)" .
next
  let ?e = "sampleEvaluation (SET ''__proto__'') Map.empty [''p'', ''b'']"
  let ?f = "currentFrame (advance ?e)"
  have i: "instances ?e ''p'' = sampleInstances ''p''"
    by (simp add: sampleEvaluation_def)
  have p1: "popOperand ?f = Inr (''b'', ?f\<lparr>operandStack := [''p'']\<rparr>)"
    by (rule popOperand_snoc [of _ "[''p'']", simplified])
       (simp_all add: currentFrame_advance currentFrame_sampleEvaluation truthy_def)
  have p2: "popOperand (?f\<lparr>operandStack := [''p'']\<rparr>) = Inr (''p'', ?f\<lparr>operandStack := []\<rparr>)"
    using popOperand_snoc [of "?f\<lparr>operandStack := [''p'']\<rparr>" "[]" "''p''"]
    by (simp add: truthy_def)
  have u: "(instances ?e)(''p'' \<mapsto> the (sampleInstances ''p'')) = instances ?e"
    by (rule ext) (simp add: i sampleInstances_p)
  have "step sampleHost sampleNatives (0, ?e) = step_SET ''__proto__'' (0, advance ?e)"
    using step_executing [OF executing_sampleEvaluation, of sampleHost sampleNatives 0
        "SET ''__proto__''" Map.empty "[''p'', ''b'']"] by simp
  also have "\<dots> = Inr (0, (setCurrentFrame (?f\<lparr>operandStack := []\<rparr>) (advance ?e))
                    \<lparr>instances := (instances ?e)(''p'' \<mapsto> the (sampleInstances ''p''))\<rparr>)"
    by (simp add: step_SET_def p1 p2 getInstance_def i sampleInstances_p setProperty_def)
  also have "\<dots> = Inr (0, setCurrentFrame
       \<lparr>instructions = [SET ''__proto__''], nextInstruction = 1, locals = Map.empty,
        operandStack = [], resume = []\<rparr> ?e)"
    by (simp only: u)
       (simp add: advance_def currentFrame_def sampleEvaluation_def setCurrentFrame_def)
  finally show "step sampleHost sampleNatives (0, ?e) = Inr (0, setCurrentFrame
       \<lparr>instructions = [SET ''__proto__''], nextInstruction = 1, locals = Map.empty,
        operandStack = [], resume = []\<rparr> ?e)" .
qed

lemma findLastIndex_None: "findLastIndex p xs = None \<longleftrightarrow> (\<forall>x \<in> set xs. \<not> p x)"
  by (induction xs) (auto split: option.splits)

lemma findLastIndex_Some:
  "findLastIndex p xs = Some i \<Longrightarrow>
   i < length xs \<and> p (xs ! i) \<and> (\<forall>j. i < j \<and> j < length xs \<longrightarrow> \<not> p (xs ! j))"
proof (induction xs arbitrary: i)
  case Nil
  then show ?case by simp
next
  case (Cons x xs)
  show ?case
  proof (cases "findLastIndex p xs")
    case None
    with Cons.prems have i: "i = 0" and px: "p x"
      by (auto split: if_splits)
    from None have "\<forall>y \<in> set xs. \<not> p y" by (simp add: findLastIndex_None)
    then have "\<forall>j. 0 < j \<and> j < length (x # xs) \<longrightarrow> \<not> p ((x # xs) ! j)"
      by (auto simp: nth_Cons split: nat.splits)
    with i px show ?thesis by simp
  next
    case (Some k)
    with Cons.prems have i: "i = Suc k" by simp
    from Cons.IH [OF Some] have k: "k < length xs" "p (xs ! k)"
      "\<forall>j. k < j \<and> j < length xs \<longrightarrow> \<not> p (xs ! j)" by auto
    have "\<forall>j. Suc k < j \<and> j < length (x # xs) \<longrightarrow> \<not> p ((x # xs) ! j)"
    proof (intro allI impI)
      fix j assume j: "Suc k < j \<and> j < length (x # xs)"
      then obtain j' where "j = Suc j'" by (cases j) auto
      with j k(3) show "\<not> p ((x # xs) ! j)" by simp
    qed
    with i k show ?thesis by simp
  qed
qed

lemma frameStack_setCurrentFrame:
  "frameStack (setCurrentFrame f evaluation) = butlast (frameStack evaluation) @ [f]"
  by (simp add: setCurrentFrame_def)

lemma length_frameStack_setCurrentFrame:
  "frameStack evaluation \<noteq> [] \<Longrightarrow>
   length (frameStack (setCurrentFrame f evaluation)) = length (frameStack evaluation)"
  by (cases "frameStack evaluation" rule: rev_cases) (simp_all add: setCurrentFrame_def)

lemma nth_frameStack_setCurrentFrame:
  "frameStack evaluation \<noteq> [] \<Longrightarrow> i < length (frameStack evaluation) \<Longrightarrow>
   frameStack (setCurrentFrame f evaluation) ! i =
     (if i = length (frameStack evaluation) - 1 then f else frameStack evaluation ! i)"
  by (cases "frameStack evaluation" rule: rev_cases)
     (auto simp: setCurrentFrame_def nth_append)

lemma locals_nth_setCurrentFrame:
  assumes "frameStack evaluation \<noteq> []" "i < length (frameStack evaluation)"
    "locals f = locals (currentFrame evaluation)"
  shows "locals (frameStack (setCurrentFrame f evaluation) ! i) = locals (frameStack evaluation ! i)"
  using assms
  by (cases "frameStack evaluation" rule: rev_cases)
     (auto simp: setCurrentFrame_def nth_append currentFrame_def)

subsection \<open>Locals: STORE\<close>

lemma step_STORE_result:
  assumes ex: "executing e (STORE name lookup)"
    and st: "operandStack (currentFrame e) = st @ [v]" and tv: "truthy v"
  shows "step host natives (n, e) =
     (let fs = frameStack (setCurrentFrame ((currentFrame (advance e))\<lparr>operandStack := st\<rparr>) e);
          i = (case (if lookup then findLastIndex (\<lambda>fr. hasProperty name (locals fr)) fs else None) of
                 Some j \<Rightarrow> j | None \<Rightarrow> length fs - 1)
      in Inr (n, e\<lparr>frameStack := fs[i := (fs ! i)\<lparr>locals := setProperty name v (locals (fs ! i))\<rparr>]\<rparr>))"
proof -
  let ?f = "currentFrame (advance e)"
  from st have "operandStack ?f = st @ [v]" by (simp add: currentFrame_advance)
  from popOperand_snoc [OF this tv]
  have p: "popOperand ?f = Inr (v, ?f\<lparr>operandStack := st\<rparr>)" .
  have "step host natives (n, e) = step_STORE name lookup (n, advance e)"
    using step_executing [OF ex, of host natives n] by simp
  also have "\<dots> = (let fs = frameStack (setCurrentFrame (?f\<lparr>operandStack := st\<rparr>) (advance e));
          i = (case (if lookup then findLastIndex (\<lambda>fr. hasProperty name (locals fr)) fs else None) of
                 Some j \<Rightarrow> j | None \<Rightarrow> length fs - 1)
      in Inr (n, (advance e)\<lparr>frameStack := fs[i := (fs ! i)\<lparr>locals := setProperty name v (locals (fs ! i))\<rparr>]\<rparr>))"
    by (simp add: step_STORE_def p Let_def)
  finally show ?thesis
    by (simp add: advance_def setCurrentFrame_def Let_def)
qed

text \<open>
  C7, as amended. Let \<open>name\<close> be no name of a member of \<open>Object.prototype\<close>.
  \<open>STORE(name, lookup)\<close> pops a value \<open>v\<close>. With \<open>lookup\<close> and a frame of the stack that
  binds \<open>name\<close>, the current frame included, \<open>v\<close> is assigned in the nearest such frame,
  searching from the current frame outwards; otherwise it is assigned in the current frame.
  After \<open>STORE(name, false)\<close> the current frame binds \<open>name\<close> to \<open>v\<close>.
\<close>

theorem STORE_assigns_in_nearest_binding_frame:
  "executing e (STORE name lookup) \<and> operandStack (currentFrame e) = st @ [v] \<and> truthy v \<and>
   inherited name = None \<longrightarrow>
   (\<exists>i fs.
      fs = frameStack (setCurrentFrame ((currentFrame (advance e))\<lparr>operandStack := st\<rparr>) e) \<and>
      i < length (frameStack e) \<and>
      (if lookup \<and> (\<exists>k < length (frameStack e). name \<in> dom (locals (frameStack e ! k)))
       then name \<in> dom (locals (frameStack e ! i)) \<and>
            (\<forall>j. i < j \<and> j < length (frameStack e) \<longrightarrow> name \<notin> dom (locals (frameStack e ! j)))
       else i = length (frameStack e) - 1) \<and>
      step host natives (n, e) =
        Inr (n, e\<lparr>frameStack := fs[i := (fs ! i)\<lparr>locals := (locals (fs ! i))(name \<mapsto> v)\<rparr>]\<rparr>)) \<and>
   (\<not> lookup \<longrightarrow>
      (\<exists>e'. step host natives (n, e) = Inr (n, e') \<and> locals (currentFrame e') name = Some v))"
proof (intro impI)
  assume h: "executing e (STORE name lookup) \<and> operandStack (currentFrame e) = st @ [v] \<and> truthy v \<and>
   inherited name = None"
  then have hp: "(\<lambda>fr. hasProperty name (locals fr)) = (\<lambda>fr. name \<in> dom (locals fr))"
    and sp: "\<And>obj. setProperty name v obj = obj(name \<mapsto> v)"
    by (simp_all add: hasProperty_own setProperty_own)
  define f where "f = (currentFrame (advance e))\<lparr>operandStack := st\<rparr>"
  define fs where "fs = frameStack (setCurrentFrame f e)"
  define found where "found = (if lookup then findLastIndex (\<lambda>fr. name \<in> dom (locals fr)) fs else None)"
  define i where "i = (case found of Some j \<Rightarrow> j | None \<Rightarrow> length fs - 1)"
  from h have ne: "frameStack e \<noteq> []" by (simp add: executing_def)
  have len: "length fs = length (frameStack e)"
    using ne by (simp add: fs_def length_frameStack_setCurrentFrame)
  have lf: "locals f = locals (currentFrame e)"
    by (simp add: f_def currentFrame_advance)
  have loc: "\<And>k. k < length (frameStack e) \<Longrightarrow> locals (fs ! k) = locals (frameStack e ! k)"
    unfolding fs_def using ne lf by (simp add: locals_nth_setCurrentFrame)
  have res: "step host natives (n, e) =
        Inr (n, e\<lparr>frameStack := fs[i := (fs ! i)\<lparr>locals := (locals (fs ! i))(name \<mapsto> v)\<rparr>]\<rparr>)"
    unfolding i_def found_def fs_def f_def
    using step_STORE_result [of e name lookup st v host natives n] h
    by (simp add: Let_def hp sp)
  have bound: "i < length (frameStack e)"
  proof (cases found)
    case None
    with ne len show ?thesis by (simp add: i_def)
  next
    case (Some j)
    then have "findLastIndex (\<lambda>fr. name \<in> dom (locals fr)) fs = Some j"
      by (simp add: found_def split: if_splits)
    from findLastIndex_Some [OF this] Some len show ?thesis by (simp add: i_def)
  qed
  have pos: "if lookup \<and> (\<exists>k < length (frameStack e). name \<in> dom (locals (frameStack e ! k)))
       then name \<in> dom (locals (frameStack e ! i)) \<and>
            (\<forall>j. i < j \<and> j < length (frameStack e) \<longrightarrow> name \<notin> dom (locals (frameStack e ! j)))
       else i = length (frameStack e) - 1"
  proof (cases found)
    case None
    have "\<not> (lookup \<and> (\<exists>k < length (frameStack e). name \<in> dom (locals (frameStack e ! k))))"
    proof
      assume a: "lookup \<and> (\<exists>k < length (frameStack e). name \<in> dom (locals (frameStack e ! k)))"
      then obtain k where k: "k < length (frameStack e)" "name \<in> dom (locals (frameStack e ! k))"
        by blast
      from a None have "findLastIndex (\<lambda>fr. name \<in> dom (locals fr)) fs = None"
        by (simp add: found_def)
      then have "\<forall>x \<in> set fs. name \<notin> dom (locals x)" by (simp add: findLastIndex_None)
      moreover from k len have "fs ! k \<in> set fs" by simp
      ultimately have "name \<notin> dom (locals (fs ! k))" by blast
      with loc [OF k(1)] k(2) show False by simp
    qed
    with None len show ?thesis by (auto simp: i_def)
  next
    case (Some j)
    then have lk: lookup and fl: "findLastIndex (\<lambda>fr. name \<in> dom (locals fr)) fs = Some j"
      by (simp_all add: found_def split: if_splits)
    from findLastIndex_Some [OF fl]
    have j: "j < length fs" "name \<in> dom (locals (fs ! j))"
      "\<forall>k. j < k \<and> k < length fs \<longrightarrow> name \<notin> dom (locals (fs ! k))" by auto
    from Some have ij: "i = j" by (simp add: i_def)
    from j len loc have a: "name \<in> dom (locals (frameStack e ! j))" by simp
    from j(3) len loc
    have b: "\<forall>k. j < k \<and> k < length (frameStack e) \<longrightarrow> name \<notin> dom (locals (frameStack e ! k))"
      by simp
    from j(1) len a have "\<exists>k < length (frameStack e). name \<in> dom (locals (frameStack e ! k))"
      by auto
    with lk a b ij show ?thesis by simp
  qed
  have part: "\<not> lookup \<longrightarrow>
      (\<exists>e'. step host natives (n, e) = Inr (n, e') \<and> locals (currentFrame e') name = Some v)"
  proof
    assume "\<not> lookup"
    then have "i = length fs - 1" by (simp add: i_def found_def)
    moreover from ne len have "fs \<noteq> []" by auto
    ultimately have "locals (last (fs[i := (fs ! i)\<lparr>locals := (locals (fs ! i))(name \<mapsto> v)\<rparr>])) name = Some v"
      by (simp add: last_list_update)
    with res show "\<exists>e'. step host natives (n, e) = Inr (n, e') \<and> locals (currentFrame e') name = Some v"
      by (simp add: currentFrame_def)
  qed
  from bound pos res part
  show "(\<exists>i fs.
      fs = frameStack (setCurrentFrame ((currentFrame (advance e))\<lparr>operandStack := st\<rparr>) e) \<and>
      i < length (frameStack e) \<and>
      (if lookup \<and> (\<exists>k < length (frameStack e). name \<in> dom (locals (frameStack e ! k)))
       then name \<in> dom (locals (frameStack e ! i)) \<and>
            (\<forall>j. i < j \<and> j < length (frameStack e) \<longrightarrow> name \<notin> dom (locals (frameStack e ! j)))
       else i = length (frameStack e) - 1) \<and>
      step host natives (n, e) =
        Inr (n, e\<lparr>frameStack := fs[i := (fs ! i)\<lparr>locals := (locals (fs ! i))(name \<mapsto> v)\<rparr>]\<rparr>)) \<and>
   (\<not> lookup \<longrightarrow>
      (\<exists>e'. step host natives (n, e) = Inr (n, e') \<and> locals (currentFrame e') name = Some v))"
    unfolding fs_def f_def by blast
qed

text \<open>
  C7 as stated says that with \<open>lookup\<close> and an outer frame binding the name, the value goes
  to that outer frame. Here the outer frame binds \<open>x\<close> to \<open>a\<close> and the current frame binds
  \<open>x\<close> to \<open>b\<close>: \<open>STORE(x, true)\<close> of \<open>p\<close> rebinds \<open>x\<close> in the current frame and leaves
  the outer frame as it was.
\<close>

theorem STORE_lookup_counterexample:
  "step sampleHost sampleNatives
     (0, sampleEvaluation (STORE ''x'' True) [''x'' \<mapsto> ''b''] [''p'']) =
   Inr (0, \<lparr>environment = sampleEnvironment,
            frameStack =
              [\<lparr>instructions = [], nextInstruction = 0, locals = [''x'' \<mapsto> ''a''],
                operandStack = [], resume = [return]\<rparr>,
               \<lparr>instructions = [STORE ''x'' True], nextInstruction = 1, locals = [''x'' \<mapsto> ''p''],
                operandStack = [], resume = []\<rparr>],
            instances = sampleInstances\<rparr>)"
  using step_STORE_result [of "sampleEvaluation (STORE ''x'' True) [''x'' \<mapsto> ''b''] [''p'']"
      "''x''" True "[]" "''p''" sampleHost sampleNatives 0]
  by (simp add: executing_sampleEvaluation currentFrame_sampleEvaluation truthy_def
      currentFrame_advance)
     (simp add: sampleEvaluation_def setCurrentFrame_def hasProperty_def setProperty_def)

text \<open>
  A name of a member of \<open>Object.prototype\<close> is in every \<open>Locals\<close> object, so a \<open>STORE\<close>
  with \<open>lookup\<close> of such a name always stops at the current frame; and \<open>STORE\<close> of
  \<open>__proto__\<close> binds nothing, the inherited setter ignoring an id.
\<close>

lemma STORE_inherited_name:
  "step sampleHost sampleNatives
     (0, sampleEvaluation (STORE ''__proto__'' False) Map.empty [''p'']) =
   Inr (0, \<lparr>environment = sampleEnvironment,
            frameStack =
              [\<lparr>instructions = [], nextInstruction = 0, locals = [''x'' \<mapsto> ''a''],
                operandStack = [], resume = [return]\<rparr>,
               \<lparr>instructions = [STORE ''__proto__'' False], nextInstruction = 1, locals = Map.empty,
                operandStack = [], resume = []\<rparr>],
            instances = sampleInstances\<rparr>)"
  using step_STORE_result [of "sampleEvaluation (STORE ''__proto__'' False) Map.empty [''p'']"
      "''__proto__''" False "[]" "''p''" sampleHost sampleNatives 0]
  by (simp add: executing_sampleEvaluation currentFrame_sampleEvaluation truthy_def
      currentFrame_advance)
     (simp add: sampleEvaluation_def setCurrentFrame_def setProperty_def)


theorem STORE_assigns_in_nearest_binding_frame_witness:
  "(executing (sampleEvaluation (STORE ''x'' True) Map.empty [''p'']) (STORE ''x'' True) \<and>
    operandStack (currentFrame (sampleEvaluation (STORE ''x'' True) Map.empty [''p''])) = [] @ [''p''] \<and>
    truthy ''p'' \<and> inherited ''x'' = None) \<and>
   (\<exists>e'. step sampleHost sampleNatives (0, sampleEvaluation (STORE ''x'' True) Map.empty [''p'']) =
           Inr (0, e') \<and>
         locals (frameStack e' ! 0) ''x'' = Some ''p'' \<and> locals (frameStack e' ! 1) ''x'' = None)"
proof -
  let ?e = "sampleEvaluation (STORE ''x'' True) Map.empty [''p'']"
  have h: "executing ?e (STORE ''x'' True) \<and> operandStack (currentFrame ?e) = [] @ [''p''] \<and>
    truthy ''p'' \<and> inherited ''x'' = None"
    by (simp add: executing_sampleEvaluation currentFrame_sampleEvaluation truthy_def
        inherited_def objectPrototype_def)
  have fs: "frameStack ?e =
      [\<lparr>instructions = [], nextInstruction = 0, locals = [''x'' \<mapsto> ''a''],
        operandStack = [], resume = [return]\<rparr>,
       \<lparr>instructions = [STORE ''x'' True], nextInstruction = 0, locals = Map.empty,
        operandStack = [''p''], resume = []\<rparr>]"
    by (simp add: sampleEvaluation_def)
  from STORE_assigns_in_nearest_binding_frame [of ?e "''x''" True "[]" "''p''" sampleHost
      sampleNatives 0] h
  obtain i fs where r:
    "fs = frameStack (setCurrentFrame ((currentFrame (advance ?e))\<lparr>operandStack := []\<rparr>) ?e)"
    "i < length (frameStack ?e)"
    "if True \<and> (\<exists>k < length (frameStack ?e). ''x'' \<in> dom (locals (frameStack ?e ! k)))
     then ''x'' \<in> dom (locals (frameStack ?e ! i)) \<and>
          (\<forall>j. i < j \<and> j < length (frameStack ?e) \<longrightarrow> ''x'' \<notin> dom (locals (frameStack ?e ! j)))
     else i = length (frameStack ?e) - 1"
    "step sampleHost sampleNatives (0, ?e) =
       Inr (0, ?e\<lparr>frameStack := fs[i := (fs ! i)\<lparr>locals := (locals (fs ! i))(''x'' \<mapsto> ''p'')\<rparr>]\<rparr>)"
    by blast
  have "\<exists>k < length (frameStack ?e). ''x'' \<in> dom (locals (frameStack ?e ! k))"
    by (rule exI [of _ 0]) (simp add: fs)
  with r(3) have "''x'' \<in> dom (locals (frameStack ?e ! i))" by simp
  with r(2) have i: "i = 0" by (cases i) (auto simp: fs)
  from r(1) have fs': "fs =
      [\<lparr>instructions = [], nextInstruction = 0, locals = [''x'' \<mapsto> ''a''],
        operandStack = [], resume = [return]\<rparr>,
       \<lparr>instructions = [STORE ''x'' True], nextInstruction = 1, locals = Map.empty,
        operandStack = [], resume = []\<rparr>]"
    by (simp add: setCurrentFrame_def fs currentFrame_advance currentFrame_sampleEvaluation)
  from r(4) i fs' h show ?thesis by simp
qed

subsection \<open>Operands and parameters\<close>

lemma popOperands_append:
  "operandStack f = st @ xs \<Longrightarrow> \<forall>x \<in> set xs. truthy x \<Longrightarrow>
   popOperands (length xs) f = Inr (rev xs, f\<lparr>operandStack := st\<rparr>)"
proof (induction xs arbitrary: f rule: rev_induct)
  case Nil
  then show ?case by simp
next
  case (snoc x xs)
  from snoc.prems have p: "popOperand f = Inr (x, f\<lparr>operandStack := st @ xs\<rparr>)"
    using popOperand_snoc [of f "st @ xs" x] by simp
  from snoc.prems have "popOperands (length xs) (f\<lparr>operandStack := st @ xs\<rparr>) =
      Inr (rev xs, f\<lparr>operandStack := st @ xs, operandStack := st\<rparr>)"
    using snoc.IH [of "f\<lparr>operandStack := st @ xs\<rparr>"] by simp
  with p show ?case by simp
qed

lemma popOperands_falsy:
  "operandStack f = st @ xs \<Longrightarrow> \<not> (\<forall>x \<in> set xs. truthy x) \<Longrightarrow>
   popOperands (length xs) f = Inl PoppedEmptyOperandStack"
proof (induction xs arbitrary: f rule: rev_induct)
  case Nil
  then show ?case by simp
next
  case (snoc x xs)
  show ?case
  proof (cases "truthy x")
    case False
    with snoc.prems have "popOperand f = Inl PoppedEmptyOperandStack"
      by (simp add: popOperand_def)
    then show ?thesis by simp
  next
    case True
    with snoc.prems have p: "popOperand f = Inr (x, f\<lparr>operandStack := st @ xs\<rparr>)"
      using popOperand_snoc [of f "st @ xs" x] by simp
    from True snoc.prems have "\<not> (\<forall>x \<in> set xs. truthy x)" by simp
    then have "popOperands (length xs) (f\<lparr>operandStack := st @ xs\<rparr>) = Inl PoppedEmptyOperandStack"
      using snoc.IH [of "f\<lparr>operandStack := st @ xs\<rparr>"] by simp
    with p show ?thesis by simp
  qed
qed

lemma popOperand_falsy:
  "operandStack f = st @ [x] \<Longrightarrow> \<not> truthy x \<Longrightarrow> popOperand f = Inl PoppedEmptyOperandStack"
  by (simp add: popOperand_def)




lemma bindParameters_fixed:
  "\<not> (\<exists>p \<in> set parameters. isVarArg p) \<Longrightarrow>
   bindParameters host parameters argIds selfId s =
     Inr ((zipObj (map parameter_name parameters) argIds)(''self'' \<mapsto> selfId), s)"
  by (simp add: bindParameters_def)

lemma addInstance_List:
  "addInstance host ''wollok.lang.List'' v (n, evaluation) =
     Inr (uuid host n, Suc n, evaluation\<lparr>instances := (instances evaluation)
       (uuid host n \<mapsto> \<lparr>id = uuid host n, module = ''wollok.lang.List'', obj_fields = Map.empty,
                        innerValue = v\<rparr>)\<rparr>)"
  by (simp add: addInstance_def Let_def)

lemma addInstance_String:
  "addInstance host ''wollok.lang.String'' v (n, evaluation) =
     Inr (uuid host n, Suc n, evaluation\<lparr>instances := (instances evaluation)
       (uuid host n \<mapsto> \<lparr>id = uuid host n, module = ''wollok.lang.String'', obj_fields = Map.empty,
                        innerValue = v\<rparr>)\<rparr>)"
  by (simp add: addInstance_def Let_def)

lemma addInstance_BadParameterException:
  "addInstance host ''wollok.lang.BadParameterException'' v (n, evaluation) =
     Inr (uuid host n, Suc n, evaluation\<lparr>instances := (instances evaluation)
       (uuid host n \<mapsto> \<lparr>id = uuid host n, module = ''wollok.lang.BadParameterException'',
                        obj_fields = Map.empty, innerValue = v\<rparr>)\<rparr>)"
  by (simp add: addInstance_def Let_def)

lemma bindParameters_varargs:
  "\<exists>p \<in> set parameters. isVarArg p \<Longrightarrow>
   bindParameters host parameters argIds selfId (n, evaluation) =
     Inr ((zipObj (butlast (map parameter_name parameters)) argIds)
            (parameter_name (last parameters) \<mapsto> uuid host n, ''self'' \<mapsto> selfId),
          Suc n,
          evaluation\<lparr>instances := (instances evaluation)
            (uuid host n \<mapsto> \<lparr>id = uuid host n, module = ''wollok.lang.List'',
               obj_fields = Map.empty,
               innerValue = Ids (drop (length parameters - 1) argIds)\<rparr>)\<rparr>)"
  by (simp add: bindParameters_def addInstance_List)

lemma bindParameters_self:
  "bindParameters host parameters argIds selfId s = Inr (ls, s') \<Longrightarrow> ls ''self'' = Some selfId"
  by (cases s) (auto simp: bindParameters_def addInstance_List Let_def split: if_splits)

lemma bindParameters_frames:
  "bindParameters host parameters argIds selfId (n, evaluation) = Inr (ls, n', evaluation') \<Longrightarrow>
   frameStack evaluation' = frameStack evaluation \<and> environment evaluation' = environment evaluation"
  by (auto simp: bindParameters_def addInstance_List Let_def split: if_splits)

subsection \<open>CALL\<close>

text \<open>The evaluation in which \<open>CALL\<close> dispatches: the caller's frame advanced, operands popped.\<close>

lemma environment_setCurrentFrame [simp]:
  "environment (setCurrentFrame f evaluation) = environment evaluation"
  by (simp add: setCurrentFrame_def)

lemma environment_advance [simp]: "environment (advance evaluation) = environment evaluation"
  by (simp add: advance_def)

lemma setCurrentFrame_advance [simp]:
  "setCurrentFrame f (advance evaluation) = setCurrentFrame f evaluation"
  by (simp add: advance_def)

lemma step_CALL_dispatch:
  assumes ex: "executing e (CALL message arity lookupStart)"
    and st: "operandStack (currentFrame e) = st @ [selfId] @ argIds"
    and len: "length argIds = arity"
    and ts: "truthy selfId" and ta: "\<forall>a \<in> set argIds. truthy a"
    and inst: "instances e selfId = Some self"
  shows "step host natives (n, e) =
     (let s' = (n, setCurrentFrame ((currentFrame (advance e))\<lparr>operandStack := st\<rparr>) e) in
      case methodLookup (environment e) message arity
             (resolve (environment e) (call_lookupStart (environment e) self lookupStart)) of
        None \<Rightarrow> call_messageNotUnderstood host message argIds selfId self s'
      | Some method \<Rightarrow>
          if isNative method
          then natives method self (map (instances e) argIds) s'
          else call_method host method argIds selfId s')"
proof -
  let ?f = "currentFrame (advance e)"
  from st have "operandStack ?f = (st @ [selfId]) @ argIds"
    by (simp add: currentFrame_advance)
  from popOperands_append [OF this ta] len
  have p1: "popOperands arity ?f = Inr (rev argIds, ?f\<lparr>operandStack := st @ [selfId]\<rparr>)"
    by simp
  have p2: "popOperand (?f\<lparr>operandStack := st @ [selfId]\<rparr>) = Inr (selfId, ?f\<lparr>operandStack := st\<rparr>)"
    using popOperand_snoc [of "?f\<lparr>operandStack := st @ [selfId]\<rparr>" st selfId] ts by simp
  have "step host natives (n, e) = step_CALL host natives message arity lookupStart (n, advance e)"
    using step_executing [OF ex, of host natives n] by simp
  also have "\<dots> =
     (let s' = (n, setCurrentFrame (?f\<lparr>operandStack := st\<rparr>) e) in
      case methodLookup (environment e) message arity
             (resolve (environment e) (call_lookupStart (environment e) self lookupStart)) of
        None \<Rightarrow> call_messageNotUnderstood host message argIds selfId self s'
      | Some method \<Rightarrow>
          if isNative method
          then natives method self (map (instances e) argIds) s'
          else call_method host method argIds selfId s')"
    using inst by (simp add: step_CALL_def p1 p2 getInstance_def Let_def split: option.split)
  finally show ?thesis .
qed

lemma step_CALL_falsy:
  assumes ex: "executing e (CALL message arity lookupStart)"
    and st: "operandStack (currentFrame e) = st @ [selfId] @ argIds"
    and len: "length argIds = arity"
    and f: "\<not> (truthy selfId \<and> (\<forall>a \<in> set argIds. truthy a))"
  shows "step host natives (n, e) = Inl PoppedEmptyOperandStack"
proof -
  let ?f = "currentFrame (advance e)"
  from st have s: "operandStack ?f = (st @ [selfId]) @ argIds"
    by (simp add: currentFrame_advance)
  have eq: "step host natives (n, e) = step_CALL host natives message arity lookupStart (n, advance e)"
    using step_executing [OF ex, of host natives n] by simp
  show ?thesis
  proof (cases "\<forall>a \<in> set argIds. truthy a")
    case False
    from popOperands_falsy [OF s False] len
    have "popOperands arity ?f = Inl PoppedEmptyOperandStack" by simp
    with eq show ?thesis by (simp add: step_CALL_def)
  next
    case True
    from popOperands_append [OF s True] len
    have p1: "popOperands arity ?f = Inr (rev argIds, ?f\<lparr>operandStack := st @ [selfId]\<rparr>)"
      by simp
    from True f have "\<not> truthy selfId" by simp
    then have "popOperand (?f\<lparr>operandStack := st @ [selfId]\<rparr>) = Inl PoppedEmptyOperandStack"
      using popOperand_falsy [of "?f\<lparr>operandStack := st @ [selfId]\<rparr>" st selfId] by simp
    with eq p1 show ?thesis by (simp add: step_CALL_def)
  qed
qed

lemma step_CALL_undefined_instance:
  assumes ex: "executing e (CALL message arity lookupStart)"
    and st: "operandStack (currentFrame e) = st @ [selfId] @ argIds"
    and len: "length argIds = arity"
    and ts: "truthy selfId" and ta: "\<forall>a \<in> set argIds. truthy a"
    and inst: "instances e selfId = None"
  shows "step host natives (n, e) = Inl (UndefinedInstance selfId)"
proof -
  let ?f = "currentFrame (advance e)"
  from st have "operandStack ?f = (st @ [selfId]) @ argIds"
    by (simp add: currentFrame_advance)
  from popOperands_append [OF this ta] len
  have p1: "popOperands arity ?f = Inr (rev argIds, ?f\<lparr>operandStack := st @ [selfId]\<rparr>)"
    by simp
  have p2: "popOperand (?f\<lparr>operandStack := st @ [selfId]\<rparr>) = Inr (selfId, ?f\<lparr>operandStack := st\<rparr>)"
    using popOperand_snoc [of "?f\<lparr>operandStack := st @ [selfId]\<rparr>" st selfId] ts by simp
  have "step host natives (n, e) = step_CALL host natives message arity lookupStart (n, advance e)"
    using step_executing [OF ex, of host natives n] by simp
  with inst show ?thesis by (simp add: step_CALL_def p1 p2 getInstance_def)
qed

lemma frameStack_pushFrame_setCurrentFrame:
  "frameStack (pushFrame g (setCurrentFrame f evaluation)) = butlast (frameStack evaluation) @ [f, g]"
  by (simp add: pushFrame_def setCurrentFrame_def)

lemma currentFrame_pushFrame [simp]: "currentFrame (pushFrame g evaluation) = g"
  by (simp add: pushFrame_def currentFrame_def)

lemma call_method_fixed:
  assumes "\<not> (\<exists>p \<in> set (method_parameters method). isVarArg p)"
    and "method_body method = Some body"
  shows "call_method host method argIds selfId (n, setCurrentFrame f e) =
     Inr (n, e\<lparr>frameStack := butlast (frameStack e) @
       [addResume return f,
        \<lparr>instructions = compile_Body (environment e) body @ [PUSH VOID_ID, INTERRUPT return],
         nextInstruction = 0,
         locals = (zipObj (map parameter_name (method_parameters method)) argIds)
                    (''self'' \<mapsto> selfId),
         operandStack = [],
         resume = []\<rparr>]\<rparr>)"
  using assms
  by (simp add: call_method_def bindParameters_fixed pushFrame_def setCurrentFrame_def
      currentFrame_def)


lemma call_method_no_body:
  "method_body method = None \<Longrightarrow> call_method host method argIds selfId s = Inl TypeError"
  by (cases s) (auto simp: call_method_def bindParameters_def addInstance_List Let_def)

lemma call_method_self:
  assumes "call_method host method argIds selfId s = Inr (n', e')"
  shows "locals (currentFrame e') ''self'' = Some selfId"
proof -
  obtain n e where s: "s = (n, e)" by (cases s)
  from assms obtain body where b: "method_body method = Some body"
    by (cases "method_body method") (auto simp: call_method_no_body)
  obtain ls m e1 where bp: "bindParameters host (method_parameters method) argIds selfId (n, e) =
      Inr (ls, m, e1)"
    by (cases "\<exists>p \<in> set (method_parameters method). isVarArg p")
       (auto simp: bindParameters_fixed bindParameters_varargs)
  from bindParameters_self [OF bp] have "ls ''self'' = Some selfId" .
  with assms s b bp show ?thesis
    by (auto simp: call_method_def)
qed


lemma call_messageNotUnderstood_self:
  assumes "call_messageNotUnderstood host message argIds selfId self s = Inr (n', e')"
  shows "locals (currentFrame e') ''self'' = Some selfId"
  using assms
  by (cases s)
     (auto simp: call_messageNotUnderstood_def addInstance_List addInstance_String Let_def
        split: option.splits)

lemma sampleEvaluation_simps [simp]:
  "environment (sampleEvaluation instruction ls stack) = sampleEnvironment"
  "instances (sampleEvaluation instruction ls stack) = sampleInstances"
  by (simp_all add: sampleEvaluation_def)

lemma sampleEnvironment_lookup_Point:
  assumes "module self = ''Point''"
  shows
  "methodLookup sampleEnvironment ''move'' 2
     (resolve sampleEnvironment (call_lookupStart sampleEnvironment self None)) = Some sampleMove"
  "methodLookup sampleEnvironment ''sum'' 2
     (resolve sampleEnvironment (call_lookupStart sampleEnvironment self None)) = Some sampleSum"
  "methodLookup sampleEnvironment ''identity'' 0
     (resolve sampleEnvironment (call_lookupStart sampleEnvironment self None)) = Some sampleIdentity"
  "methodLookup sampleEnvironment ''jump'' 1
     (resolve sampleEnvironment (call_lookupStart sampleEnvironment self None)) = None"
  "methodLookup sampleEnvironment ''messageNotUnderstood'' 2
     (resolve sampleEnvironment (Some (module self))) = Some sampleMessageNotUnderstood"
  using assms
  by (simp_all add: sampleEnvironment_def call_lookupStart_def samplePoint_def)

subsection \<open>Method dispatch: CALL\<close>







subsection \<open>Constructors: INIT\<close>

lemma allFields_order:
  "foldl (\<lambda>fs m. fieldsOf m @ fs) acc hs = concat (map fieldsOf (rev hs)) @ acc"
  by (induction hs arbitrary: acc) simp_all

lemma concat_map_concat:
  "concat (map f (concat xss)) = concat (map (\<lambda>xs. concat (map f xs)) xss)"
  by (induction xss) simp_all

lemma init_fields_order:
  "init_fields env (allFields env self) =
     concat (map (\<lambda>cls. concat (map (\<lambda>fld.
         [LOAD ''self''] @ compile env (field_value fld) @ [SET (field_name fld)]) (fieldsOf cls)))
       (rev (hierarchy env (resolve env (Some (module self))))))"
  by (simp add: init_fields_def allFields_def allFields_order concat_map_concat comp_def)

lemma step_INIT_cases:
  assumes ex: "executing e (INIT arity lookupStart initFields)"
    and st: "operandStack (currentFrame e) = st @ argIds @ [selfId]"
    and len: "length argIds = arity"
  shows "step host natives (n, e) =
     (if \<not> (truthy selfId \<and> (\<forall>a \<in> set argIds. truthy a)) then Inl PoppedEmptyOperandStack
      else case instances e selfId of
        None \<Rightarrow> Inl (UndefinedInstance selfId)
      | Some self \<Rightarrow>
          (case constructorLookup (environment e) arity
                  (resolve (environment e) (Some lookupStart)) of
             None \<Rightarrow> Inl (MissingConstructor arity
               (fullyQualifiedName (environment e)
                  (class_id (resolve (environment e) (Some lookupStart)))))
           | Some c \<Rightarrow>
               andThen (bindParameters host (constructor_parameters c) argIds selfId
                  (n, setCurrentFrame ((currentFrame (advance e))\<lparr>operandStack := st\<rparr>) e))
                 (\<lambda>(locals', n', evaluation').
               Inr (n', pushFrame
                 \<lparr>instructions =
                    (if initFields then init_fields (environment e) (allFields (environment e) self)
                     else []) @
                    init_baseCall (environment e) c
                      (superclass (environment e) (resolve (environment e) (Some lookupStart)))
                      lookupStart @
                    compile_Body (environment e) (constructor_body c) @
                    [LOAD ''self'', INTERRUPT return],
                  nextInstruction = 0,
                  locals = locals',
                  operandStack = [],
                  resume = []\<rparr>
                 (setCurrentFrame (addResume return (currentFrame evaluation')) evaluation')))))"
proof -
  let ?f = "currentFrame (advance e)"
  from st have s: "operandStack ?f = (st @ argIds) @ [selfId]"
    by (simp add: currentFrame_advance)
  have eq: "step host natives (n, e) = step_INIT host arity lookupStart initFields (n, advance e)"
    using step_executing [OF ex, of host natives n] by simp
  show ?thesis
  proof (cases "truthy selfId")
    case False
    from popOperand_falsy [OF s False] eq False show ?thesis
      by (simp add: step_INIT_def)
  next
    case True
    from popOperand_snoc [OF s True]
    have p1: "popOperand ?f = Inr (selfId, ?f\<lparr>operandStack := st @ argIds\<rparr>)" .
    have s2: "operandStack (?f\<lparr>operandStack := st @ argIds\<rparr>) = st @ argIds" by simp
    show ?thesis
    proof (cases "\<forall>a \<in> set argIds. truthy a")
      case False
      from popOperands_falsy [OF s2 False] len
      have "popOperands arity (?f\<lparr>operandStack := st @ argIds\<rparr>) = Inl PoppedEmptyOperandStack"
        by simp
      with eq p1 False show ?thesis by (simp add: step_INIT_def)
    next
      case ta: True
      from popOperands_append [OF s2 ta] len
      have p2: "popOperands arity (?f\<lparr>operandStack := st @ argIds\<rparr>) =
          Inr (rev argIds, ?f\<lparr>operandStack := st\<rparr>)"
        by simp
      from eq True ta show ?thesis
        by (simp add: step_INIT_def p1 p2 getInstance_def Let_def split: option.split)
    qed
  qed
qed

lemma step_INIT_self:
  assumes ex: "executing e (INIT arity lookupStart initFields)"
    and st: "operandStack (currentFrame e) = st @ argIds @ [selfId]"
    and len: "length argIds = arity"
    and ok: "step host natives (n, e) = Inr (n', e')"
  shows "locals (currentFrame e') ''self'' = Some selfId"
proof -
  note c = step_INIT_cases [OF ex st len, of host natives n]
  from c ok have t: "truthy selfId \<and> (\<forall>a \<in> set argIds. truthy a)"
    by (auto split: if_splits)
  with c ok obtain self where i: "instances e selfId = Some self"
    by (cases "instances e selfId") auto
  with c ok t obtain k where k: "constructorLookup (environment e) arity
      (resolve (environment e) (Some lookupStart)) = Some k"
    by (cases "constructorLookup (environment e) arity (resolve (environment e) (Some lookupStart))")
       auto
  obtain ls m e1 where bp: "bindParameters host (constructor_parameters k) argIds selfId
      (n, setCurrentFrame ((currentFrame (advance e))\<lparr>operandStack := st\<rparr>) e) = Inr (ls, m, e1)"
    by (cases "\<exists>p \<in> set (constructor_parameters k). isVarArg p")
       (auto simp: bindParameters_fixed bindParameters_varargs)
  from bindParameters_self [OF bp] have "ls ''self'' = Some selfId" .
  with c ok t i k bp show ?thesis by auto
qed

lemma step_INIT_instructions:
  assumes ex: "executing e (INIT arity lookupStart initFields)"
    and st: "operandStack (currentFrame e) = st @ argIds @ [selfId]"
    and len: "length argIds = arity"
    and t: "truthy selfId" "\<forall>a \<in> set argIds. truthy a"
    and i: "instances e selfId = Some self"
    and k: "constructorLookup (environment e) arity
      (resolve (environment e) (Some lookupStart)) = Some c"
  shows "\<exists>n' e'. step host natives (n, e) = Inr (n', e') \<and>
     instructions (currentFrame e') =
       (if initFields then init_fields (environment e) (allFields (environment e) self) else []) @
       init_baseCall (environment e) c
         (superclass (environment e) (resolve (environment e) (Some lookupStart))) lookupStart @
       compile_Body (environment e) (constructor_body c) @
       [LOAD ''self'', INTERRUPT return] \<and>
     nextInstruction (currentFrame e') = 0 \<and> operandStack (currentFrame e') = [] \<and>
     resume (currentFrame e') = [] \<and> length (frameStack e') = Suc (length (frameStack e))"
proof -
  note r = step_INIT_cases [OF ex st len, of host natives n]
  obtain ls m e1 where bp: "bindParameters host (constructor_parameters c) argIds selfId
      (n, setCurrentFrame ((currentFrame (advance e))\<lparr>operandStack := st\<rparr>) e) = Inr (ls, m, e1)"
    by (cases "\<exists>p \<in> set (constructor_parameters c). isVarArg p")
       (auto simp: bindParameters_fixed bindParameters_varargs)
  from ex have "frameStack e \<noteq> []" by (simp add: executing_def)
  with bindParameters_frames [OF bp]
  have "length (frameStack e1) = length (frameStack e)"
    by (simp add: length_frameStack_setCurrentFrame)
  moreover from this \<open>frameStack e \<noteq> []\<close> have "frameStack e1 \<noteq> []" by auto
  ultimately have "length (frameStack (pushFrame g (setCurrentFrame h e1))) =
      Suc (length (frameStack e))" for g h
    by (simp add: pushFrame_def length_frameStack_setCurrentFrame)
  with r t i k bp show ?thesis by simp
qed


text \<open>
  C3. An \<open>INIT\<close> with \<open>initFields\<close> pushes a frame whose instructions begin with
  \<open>LOAD(self)\<close>, the compiled initializer and \<open>SET(name)\<close> for every field of every class of
  the receiver's hierarchy: the classes from the root down to the receiver's own class
  (\<open>hierarchy\<close> lists them from the class up, and the prefix follows the reversed list), the
  fields of one class in the order of its members. Without \<open>initFields\<close> nothing precedes
  the base call, and the \<open>INIT\<close> that chains to the base constructor has \<open>initFields\<close> false.
\<close>

theorem INIT_initializes_fields_superclass_first:
  "executing e (INIT arity lookupStart initFields) \<and>
   operandStack (currentFrame e) = st @ argIds @ [selfId] \<and> length argIds = arity \<and>
   truthy selfId \<and> (\<forall>a \<in> set argIds. truthy a) \<and> instances e selfId = Some self \<and>
   constructorLookup (environment e) arity (resolve (environment e) (Some lookupStart)) = Some c
   \<longrightarrow>
   (let env = environment e;
        chain = init_baseCall env c (superclass env (resolve env (Some lookupStart))) lookupStart
    in
    (\<exists>n' e'. step host natives (n, e) = Inr (n', e') \<and>
       length (frameStack e') = Suc (length (frameStack e)) \<and>
       instructions (currentFrame e') =
         (if initFields
          then concat (map (\<lambda>cls. concat (map (\<lambda>fld.
                 [LOAD ''self''] @ compile env (field_value fld) @ [SET (field_name fld)])
                 (fieldsOf cls)))
               (rev (hierarchy env (resolve env (Some (module self))))))
          else []) @
         chain @ compile_Body env (constructor_body c) @ [LOAD ''self'', INTERRUPT return]) \<and>
    (chain = [] \<or>
     (\<exists>target. chain = concat (map (compile env) (baseCall_args (baseCall c))) @
        [LOAD ''self'', INIT (length (baseCall_args (baseCall c))) target False])))"
proof (intro impI)
  assume h: "executing e (INIT arity lookupStart initFields) \<and>
   operandStack (currentFrame e) = st @ argIds @ [selfId] \<and> length argIds = arity \<and>
   truthy selfId \<and> (\<forall>a \<in> set argIds. truthy a) \<and> instances e selfId = Some self \<and>
   constructorLookup (environment e) arity (resolve (environment e) (Some lookupStart)) = Some c"
  from h step_INIT_instructions [of e arity lookupStart initFields st argIds selfId self c host
      natives n]
  have a: "\<exists>n' e'. step host natives (n, e) = Inr (n', e') \<and>
     length (frameStack e') = Suc (length (frameStack e)) \<and>
     instructions (currentFrame e') =
       (if initFields then init_fields (environment e) (allFields (environment e) self) else []) @
       init_baseCall (environment e) c
         (superclass (environment e) (resolve (environment e) (Some lookupStart))) lookupStart @
       compile_Body (environment e) (constructor_body c) @
       [LOAD ''self'', INTERRUPT return]"
    by blast
  have b: "init_baseCall env c sc lookupStart = [] \<or>
     (\<exists>target. init_baseCall env c sc lookupStart =
        concat (map (compile env) (baseCall_args (baseCall c))) @
        [LOAD ''self'', INIT (length (baseCall_args (baseCall c))) target False])" for env sc
    by (simp add: init_baseCall_def)
  from a b show "(let env = environment e;
        chain = init_baseCall env c (superclass env (resolve env (Some lookupStart))) lookupStart
    in
    (\<exists>n' e'. step host natives (n, e) = Inr (n', e') \<and>
       length (frameStack e') = Suc (length (frameStack e)) \<and>
       instructions (currentFrame e') =
         (if initFields
          then concat (map (\<lambda>cls. concat (map (\<lambda>fld.
                 [LOAD ''self''] @ compile env (field_value fld) @ [SET (field_name fld)])
                 (fieldsOf cls)))
               (rev (hierarchy env (resolve env (Some (module self))))))
          else []) @
         chain @ compile_Body env (constructor_body c) @ [LOAD ''self'', INTERRUPT return]) \<and>
    (chain = [] \<or>
     (\<exists>target. chain = concat (map (compile env) (baseCall_args (baseCall c))) @
        [LOAD ''self'', INIT (length (baseCall_args (baseCall c))) target False])))"
    unfolding Let_def init_fields_order [symmetric] by blast
qed

theorem INIT_initializes_fields_superclass_first_witness:
  "(executing (sampleEvaluation (INIT 0 ''Point'' True) Map.empty [''p'']) (INIT 0 ''Point'' True) \<and>
    operandStack (currentFrame (sampleEvaluation (INIT 0 ''Point'' True) Map.empty [''p'']))
      = [] @ [] @ [''p''] \<and>
    length ([] :: Id list) = 0 \<and> truthy ''p'' \<and>
    instances (sampleEvaluation (INIT 0 ''Point'' True) Map.empty [''p'']) ''p''
      = Some (the (sampleInstances ''p'')) \<and>
    constructorLookup sampleEnvironment 0 (resolve sampleEnvironment (Some ''Point''))
      = Some sampleConstructor) \<and>
   (\<exists>n' e'. step sampleHost sampleNatives
            (0, sampleEvaluation (INIT 0 ''Point'' True) Map.empty [''p'']) = Inr (n', e') \<and>
         instructions (currentFrame e') =
           [LOAD ''self'', PUSH NULL_ID, SET ''o'',
            LOAD ''self'', PUSH NULL_ID, SET ''x'',
            LOAD ''self'', PUSH TRUE_ID, SET ''y'',
            LOAD ''self'', INIT 0 ''wollok.lang.Object'' False,
            LOAD ''self'', INTERRUPT return])"
proof -
  let ?e = "sampleEvaluation (INIT 0 ''Point'' True) Map.empty [''p'']"
  have h: "executing ?e (INIT 0 ''Point'' True) \<and>
    operandStack (currentFrame ?e) = [] @ [] @ [''p''] \<and>
    length ([] :: Id list) = 0 \<and> truthy ''p'' \<and> (\<forall>a \<in> set ([] :: Id list). truthy a) \<and>
    instances ?e ''p'' = Some (the (sampleInstances ''p'')) \<and>
    constructorLookup (environment ?e) 0 (resolve (environment ?e) (Some ''Point''))
      = Some sampleConstructor"
    by (simp add: executing_sampleEvaluation currentFrame_sampleEvaluation truthy_def
        sampleInstances_p)
       (simp add: sampleEnvironment_def)
  have env: "hierarchy sampleEnvironment (resolve sampleEnvironment
        (Some (module (the (sampleInstances ''p''))))) = [samplePoint, sampleObject]"
    "superclass sampleEnvironment (resolve sampleEnvironment (Some ''Point'')) = Some sampleObject"
    "fullyQualifiedName sampleEnvironment (class_id sampleObject) = ''wollok.lang.Object''"
    by (simp_all add: sampleEnvironment_def sampleInstances_p samplePoint_def sampleObject_def)
  have fs: "fieldsOf sampleObject = [\<lparr>field_name = ''o'', field_value = Literal LiteralNull\<rparr>]"
    "fieldsOf samplePoint = [\<lparr>field_name = ''x'', field_value = Literal LiteralNull\<rparr>,
       \<lparr>field_name = ''y'', field_value = Literal (LiteralBoolean True)\<rparr>]"
    by (simp_all add: fieldsOf_def sampleObject_def samplePoint_def)
  have c: "sampleConstructor = \<lparr>constructor_parameters = [],
      baseCall = \<lparr>callsSuper = True, baseCall_args = []\<rparr>, constructor_body = Body []\<rparr>"
    by (simp add: sampleConstructor_def)
  have i: "(if True
          then concat (map (\<lambda>cls. concat (map (\<lambda>fld.
                 [LOAD ''self''] @ compile sampleEnvironment (field_value fld) @
                 [SET (field_name fld)]) (fieldsOf cls)))
               (rev (hierarchy sampleEnvironment
                  (resolve sampleEnvironment (Some (module (the (sampleInstances ''p''))))))))
          else []) @
         init_baseCall sampleEnvironment sampleConstructor
           (superclass sampleEnvironment (resolve sampleEnvironment (Some ''Point''))) ''Point'' @
         compile_Body sampleEnvironment (constructor_body sampleConstructor) @
         [LOAD ''self'', INTERRUPT return] =
           [LOAD ''self'', PUSH NULL_ID, SET ''o'',
            LOAD ''self'', PUSH NULL_ID, SET ''x'',
            LOAD ''self'', PUSH TRUE_ID, SET ''y'',
            LOAD ''self'', INIT 0 ''wollok.lang.Object'' False,
            LOAD ''self'', INTERRUPT return]"
    by (simp add: env fs init_baseCall_def c)
  from INIT_initializes_fields_superclass_first [of ?e 0 "''Point''" True "[]" "[]" "''p''"
      "the (sampleInstances ''p'')" sampleConstructor sampleHost sampleNatives 0] h
  obtain n' e' where "step sampleHost sampleNatives (0, ?e) = Inr (n', e')"
    "instructions (currentFrame e') =
       (if True
          then concat (map (\<lambda>cls. concat (map (\<lambda>fld.
                 [LOAD ''self''] @ compile sampleEnvironment (field_value fld) @
                 [SET (field_name fld)]) (fieldsOf cls)))
               (rev (hierarchy sampleEnvironment
                  (resolve sampleEnvironment (Some (module (the (sampleInstances ''p''))))))))
          else []) @
         init_baseCall sampleEnvironment sampleConstructor
           (superclass sampleEnvironment (resolve sampleEnvironment (Some ''Point''))) ''Point'' @
         compile_Body sampleEnvironment (constructor_body sampleConstructor) @
         [LOAD ''self'', INTERRUPT return]"
    unfolding Let_def sampleEvaluation_simps by blast
  with i have "\<exists>n' e'. step sampleHost sampleNatives (0, ?e) = Inr (n', e') \<and>
         instructions (currentFrame e') =
           [LOAD ''self'', PUSH NULL_ID, SET ''o'',
            LOAD ''self'', PUSH NULL_ID, SET ''x'',
            LOAD ''self'', PUSH TRUE_ID, SET ''y'',
            LOAD ''self'', INIT 0 ''wollok.lang.Object'' False,
            LOAD ''self'', INTERRUPT return]"
    by (simp only:) blast
  with h show ?thesis by simp
qed

subsection \<open>The receiver of a call\<close>

text \<open>
  C9, as amended. After a step that executes a \<open>CALL\<close> which does not dispatch to a native
  method, or an \<open>INIT\<close>, and does not fail, the top frame binds \<open>self\<close> to the receiver the
  instruction popped. (A native method runs inside the step, in the caller's frame; no frame
  is pushed for it.)
\<close>

theorem CALL_INIT_bind_self_to_receiver:
  "(executing e (CALL message arity lookupStart) \<and>
    operandStack (currentFrame e) = st @ [selfId] @ argIds \<and> length argIds = arity \<and>
    (\<forall>self method. instances e selfId = Some self \<and>
       methodLookup (environment e) message arity
         (resolve (environment e) (call_lookupStart (environment e) self lookupStart)) = Some method
       \<longrightarrow> \<not> isNative method) \<and>
    step host natives (n, e) = Inr (n', e')
    \<longrightarrow> locals (currentFrame e') ''self'' = Some selfId) \<and>
   (executing e2 (INIT arity2 lookupStart2 initFields) \<and>
    operandStack (currentFrame e2) = st2 @ argIds2 @ [selfId2] \<and> length argIds2 = arity2 \<and>
    step host natives (m, e2) = Inr (m', e2')
    \<longrightarrow> locals (currentFrame e2') ''self'' = Some selfId2)"
proof (intro conjI impI)
  assume h: "executing e (CALL message arity lookupStart) \<and>
    operandStack (currentFrame e) = st @ [selfId] @ argIds \<and> length argIds = arity \<and>
    (\<forall>self method. instances e selfId = Some self \<and>
       methodLookup (environment e) message arity
         (resolve (environment e) (call_lookupStart (environment e) self lookupStart)) = Some method
       \<longrightarrow> \<not> isNative method) \<and>
    step host natives (n, e) = Inr (n', e')"
  then have ex: "executing e (CALL message arity lookupStart)"
    and st: "operandStack (currentFrame e) = st @ [selfId] @ argIds"
    and len: "length argIds = arity"
    and ok: "step host natives (n, e) = Inr (n', e')"
    by simp_all
  have t: "truthy selfId \<and> (\<forall>a \<in> set argIds. truthy a)"
  proof (rule ccontr)
    assume "\<not> (truthy selfId \<and> (\<forall>a \<in> set argIds. truthy a))"
    from step_CALL_falsy [OF ex st len this, of host natives n] ok show False by simp
  qed
  obtain self where i: "instances e selfId = Some self"
  proof (cases "instances e selfId")
    case None
    from t step_CALL_undefined_instance [OF ex st len _ _ None, of host natives n] ok
    show ?thesis by simp
  next
    case (Some a)
    then show ?thesis by (rule that)
  qed
  let ?s = "(n, setCurrentFrame ((currentFrame (advance e))\<lparr>operandStack := st\<rparr>) e)"
  from t have d: "step host natives (n, e) =
     (case methodLookup (environment e) message arity
             (resolve (environment e) (call_lookupStart (environment e) self lookupStart)) of
        None \<Rightarrow> call_messageNotUnderstood host message argIds selfId self ?s
      | Some method \<Rightarrow>
          if isNative method
          then natives method self (map (instances e) argIds) ?s
          else call_method host method argIds selfId ?s)"
    using step_CALL_dispatch [OF ex st len _ _ i, of host natives n] by (simp add: Let_def)
  show "locals (currentFrame e') ''self'' = Some selfId"
  proof (cases "methodLookup (environment e) message arity
             (resolve (environment e) (call_lookupStart (environment e) self lookupStart))")
    case None
    with d ok have "call_messageNotUnderstood host message argIds selfId self ?s = Inr (n', e')"
      by simp
    then show ?thesis by (rule call_messageNotUnderstood_self)
  next
    case (Some mth)
    with h i have "\<not> isNative mth" by blast
    with d ok Some have "call_method host mth argIds selfId ?s = Inr (n', e')"
      by simp
    then show ?thesis by (rule call_method_self)
  qed
next
  assume h: "executing e2 (INIT arity2 lookupStart2 initFields) \<and>
    operandStack (currentFrame e2) = st2 @ argIds2 @ [selfId2] \<and> length argIds2 = arity2 \<and>
    step host natives (m, e2) = Inr (m', e2')"
  then show "locals (currentFrame e2') ''self'' = Some selfId2"
    using step_INIT_self [of e2 arity2 lookupStart2 initFields st2 argIds2 selfId2 host natives m m' e2']
    by blast
qed

lemma step_sample_move:
  "step sampleHost sampleNatives
     (0, sampleEvaluation (CALL ''move'' 2 None) Map.empty [''p'', ''a'', ''b'']) =
   Inr (0, (sampleEvaluation (CALL ''move'' 2 None) Map.empty [''p'', ''a'', ''b''])
     \<lparr>frameStack :=
        [\<lparr>instructions = [], nextInstruction = 0, locals = [''x'' \<mapsto> ''a''],
          operandStack = [], resume = [return]\<rparr>,
         \<lparr>instructions = [CALL ''move'' 2 None], nextInstruction = 1, locals = Map.empty,
          operandStack = [], resume = [return]\<rparr>,
         \<lparr>instructions = [LOAD ''dx'', INTERRUPT return, PUSH VOID_ID, INTERRUPT return],
          nextInstruction = 0,
          locals = [''dx'' \<mapsto> ''a'', ''dy'' \<mapsto> ''b'', ''self'' \<mapsto> ''p''],
          operandStack = [], resume = []\<rparr>]\<rparr>)"
proof -
  let ?e = "sampleEvaluation (CALL ''move'' 2 None) Map.empty [''p'', ''a'', ''b'']"
  let ?f = "(currentFrame (advance ?e))\<lparr>operandStack := []\<rparr>"
  have m: "module (the (sampleInstances ''p'')) = ''Point''"
    by (simp add: sampleInstances_p)
  have "step sampleHost sampleNatives (0, ?e) =
      call_method sampleHost sampleMove [''a'', ''b''] ''p'' (0, setCurrentFrame ?f ?e)"
    using step_CALL_dispatch [of ?e "''move''" 2 None "[]" "''p''" "[''a'', ''b'']"
        "the (sampleInstances ''p'')" sampleHost sampleNatives 0]
      sampleEnvironment_lookup_Point [OF m]
    by (simp add: executing_sampleEvaluation currentFrame_sampleEvaluation truthy_def
        sampleInstances_p sampleMove_def)
  also have "\<dots> = Inr (0, ?e\<lparr>frameStack := butlast (frameStack ?e) @
       [addResume return ?f,
        \<lparr>instructions = compile_Body (environment ?e)
            (Body [Return (Some (ReferenceTo (Reference ''r1'' ''dx'')))]) @
           [PUSH VOID_ID, INTERRUPT return],
         nextInstruction = 0,
         locals = (zipObj (map parameter_name (method_parameters sampleMove)) [''a'', ''b''])
                    (''self'' \<mapsto> ''p''),
         operandStack = [],
         resume = []\<rparr>]\<rparr>)"
    using call_method_fixed [of sampleMove
        "Body [Return (Some (ReferenceTo (Reference ''r1'' ''dx'')))]" sampleHost "[''a'', ''b'']"
        "''p''" 0 ?f ?e]
    by (simp add: sampleMove_def)
  finally show ?thesis
    by (simp add: sampleMove_def zipObj_def addResume_def currentFrame_advance
        currentFrame_sampleEvaluation)
       (simp add: sampleEvaluation_def sampleEnvironment_def is_Field_def isModule_def)
qed


theorem CALL_INIT_bind_self_to_receiver_witness:
  "\<exists>m' e2'.
   (executing (sampleEvaluation (CALL ''move'' 2 None) Map.empty [''p'', ''a'', ''b''])
      (CALL ''move'' 2 None) \<and>
    operandStack (currentFrame (sampleEvaluation (CALL ''move'' 2 None) Map.empty [''p'', ''a'', ''b'']))
      = [] @ [''p''] @ [''a'', ''b''] \<and>
    length [''a'', ''b''] = (2::nat) \<and>
    (\<forall>self method.
       instances (sampleEvaluation (CALL ''move'' 2 None) Map.empty [''p'', ''a'', ''b'']) ''p''
         = Some self \<and>
       methodLookup sampleEnvironment ''move'' 2
         (resolve sampleEnvironment (call_lookupStart sampleEnvironment self None)) = Some method
       \<longrightarrow> \<not> isNative method) \<and>
    step sampleHost sampleNatives
      (0, sampleEvaluation (CALL ''move'' 2 None) Map.empty [''p'', ''a'', ''b'']) =
    Inr (0, (sampleEvaluation (CALL ''move'' 2 None) Map.empty [''p'', ''a'', ''b''])
     \<lparr>frameStack :=
        [\<lparr>instructions = [], nextInstruction = 0, locals = [''x'' \<mapsto> ''a''],
          operandStack = [], resume = [return]\<rparr>,
         \<lparr>instructions = [CALL ''move'' 2 None], nextInstruction = 1, locals = Map.empty,
          operandStack = [], resume = [return]\<rparr>,
         \<lparr>instructions = [LOAD ''dx'', INTERRUPT return, PUSH VOID_ID, INTERRUPT return],
          nextInstruction = 0,
          locals = [''dx'' \<mapsto> ''a'', ''dy'' \<mapsto> ''b'', ''self'' \<mapsto> ''p''],
          operandStack = [], resume = []\<rparr>]\<rparr>)) \<and>
   locals (currentFrame
     ((sampleEvaluation (CALL ''move'' 2 None) Map.empty [''p'', ''a'', ''b''])
     \<lparr>frameStack :=
        [\<lparr>instructions = [], nextInstruction = 0, locals = [''x'' \<mapsto> ''a''],
          operandStack = [], resume = [return]\<rparr>,
         \<lparr>instructions = [CALL ''move'' 2 None], nextInstruction = 1, locals = Map.empty,
          operandStack = [], resume = [return]\<rparr>,
         \<lparr>instructions = [LOAD ''dx'', INTERRUPT return, PUSH VOID_ID, INTERRUPT return],
          nextInstruction = 0,
          locals = [''dx'' \<mapsto> ''a'', ''dy'' \<mapsto> ''b'', ''self'' \<mapsto> ''p''],
          operandStack = [], resume = []\<rparr>]\<rparr>)) ''self'' = Some ''p'' \<and>
   (executing (sampleEvaluation (INIT 0 ''Point'' True) Map.empty [''p'']) (INIT 0 ''Point'' True) \<and>
    operandStack (currentFrame (sampleEvaluation (INIT 0 ''Point'' True) Map.empty [''p'']))
      = [] @ [] @ [''p''] \<and>
    length ([] :: Id list) = 0 \<and>
    step sampleHost sampleNatives (0, sampleEvaluation (INIT 0 ''Point'' True) Map.empty [''p''])
      = Inr (m', e2')) \<and>
   locals (currentFrame e2') ''self'' = Some ''p''"
proof -
  let ?e = "sampleEvaluation (CALL ''move'' 2 None) Map.empty [''p'', ''a'', ''b'']"
  let ?e' = "?e\<lparr>frameStack :=
        [\<lparr>instructions = [], nextInstruction = 0, locals = [''x'' \<mapsto> ''a''],
          operandStack = [], resume = [return]\<rparr>,
         \<lparr>instructions = [CALL ''move'' 2 None], nextInstruction = 1, locals = Map.empty,
          operandStack = [], resume = [return]\<rparr>,
         \<lparr>instructions = [LOAD ''dx'', INTERRUPT return, PUSH VOID_ID, INTERRUPT return],
          nextInstruction = 0,
          locals = [''dx'' \<mapsto> ''a'', ''dy'' \<mapsto> ''b'', ''self'' \<mapsto> ''p''],
          operandStack = [], resume = []\<rparr>]\<rparr>"
  let ?e2 = "sampleEvaluation (INIT 0 ''Point'' True) Map.empty [''p'']"
  have nn: "\<forall>self method. instances ?e ''p'' = Some self \<and>
       methodLookup (environment ?e) ''move'' 2
         (resolve (environment ?e) (call_lookupStart (environment ?e) self None)) = Some method
       \<longrightarrow> \<not> isNative method"
  proof (intro allI impI)
    fix self mth
    assume a: "instances ?e ''p'' = Some self \<and>
       methodLookup (environment ?e) ''move'' 2
         (resolve (environment ?e) (call_lookupStart (environment ?e) self None)) = Some mth"
    then have "module self = ''Point''" by (auto simp: sampleInstances_p)
    from sampleEnvironment_lookup_Point(1) [OF this] a have "mth = sampleMove" by simp
    then show "\<not> isNative mth" by (simp add: sampleMove_def)
  qed
  have h1: "executing ?e (CALL ''move'' 2 None) \<and>
    operandStack (currentFrame ?e) = [] @ [''p''] @ [''a'', ''b''] \<and>
    length [''a'', ''b''] = (2::nat) \<and>
    (\<forall>self method. instances ?e ''p'' = Some self \<and>
       methodLookup (environment ?e) ''move'' 2
         (resolve (environment ?e) (call_lookupStart (environment ?e) self None)) = Some method
       \<longrightarrow> \<not> isNative method) \<and>
    step sampleHost sampleNatives (0, ?e) = Inr (0, ?e')"
    using nn step_sample_move
    by (simp add: executing_sampleEvaluation currentFrame_sampleEvaluation)
  have ex2: "executing ?e2 (INIT 0 ''Point'' True)"
    "operandStack (currentFrame ?e2) = [] @ [] @ [''p'']"
    "length ([] :: Id list) = 0" "truthy ''p''" "\<forall>a \<in> set ([] :: Id list). truthy a"
    "instances ?e2 ''p'' = Some (the (sampleInstances ''p''))"
    "constructorLookup (environment ?e2) 0 (resolve (environment ?e2) (Some ''Point''))
      = Some sampleConstructor"
    by (simp_all add: executing_sampleEvaluation currentFrame_sampleEvaluation truthy_def
        sampleInstances_p sampleEnvironment_def)
  from step_INIT_instructions [OF ex2, of sampleHost sampleNatives 0]
  obtain m' e2' where s2: "step sampleHost sampleNatives (0, ?e2) = Inr (m', e2')" by blast
  with ex2 have h2: "executing ?e2 (INIT 0 ''Point'' True) \<and>
    operandStack (currentFrame ?e2) = [] @ [] @ [''p''] \<and> length ([] :: Id list) = 0 \<and>
    step sampleHost sampleNatives (0, ?e2) = Inr (m', e2')"
    by simp
  from CALL_INIT_bind_self_to_receiver [THEN conjunct1, rule_format, OF h1]
  have c1: "locals (currentFrame ?e') ''self'' = Some ''p''" .
  from CALL_INIT_bind_self_to_receiver [THEN conjunct2, rule_format, OF h2]
  have c2: "locals (currentFrame e2') ''self'' = Some ''p''" .
  from h1 h2 c1 c2 show ?thesis
    unfolding sampleEvaluation_simps by blast
qed

text \<open>
  C9 as stated includes the calls of native methods. \<open>identity\<close> is native: the step calls
  the native, which pushes its answer, and the top frame is still the caller's frame, which
  has no \<open>self\<close> local here.
\<close>

theorem CALL_native_counterexample:
  "step sampleHost sampleNatives
     (0, sampleEvaluation (CALL ''identity'' 0 None) Map.empty [''p'']) =
   Inr (0, \<lparr>environment = sampleEnvironment,
            frameStack =
              [\<lparr>instructions = [], nextInstruction = 0, locals = [''x'' \<mapsto> ''a''],
                operandStack = [], resume = [return]\<rparr>,
               \<lparr>instructions = [CALL ''identity'' 0 None], nextInstruction = 1,
                locals = Map.empty, operandStack = [VOID_ID], resume = []\<rparr>],
            instances = sampleInstances\<rparr>)"
proof -
  let ?e = "sampleEvaluation (CALL ''identity'' 0 None) Map.empty [''p'']"
  let ?f = "(currentFrame (advance ?e))\<lparr>operandStack := []\<rparr>"
  have m: "module (the (sampleInstances ''p'')) = ''Point''"
    by (simp add: sampleInstances_p)
  have "step sampleHost sampleNatives (0, ?e) =
      sampleNatives sampleIdentity (the (sampleInstances ''p'')) [] (0, setCurrentFrame ?f ?e)"
    using step_CALL_dispatch [of ?e "''identity''" 0 None "[]" "''p''" "[]"
        "the (sampleInstances ''p'')" sampleHost sampleNatives 0]
      sampleEnvironment_lookup_Point [OF m]
    by (simp add: executing_sampleEvaluation currentFrame_sampleEvaluation truthy_def
        sampleInstances_p sampleIdentity_def)
  then show ?thesis
    by (simp add: sampleNatives_def pushOperand_def currentFrame_advance
        currentFrame_sampleEvaluation)
       (simp add: sampleEvaluation_def setCurrentFrame_def)
qed

subsection \<open>Interruptions raised by the executor\<close>

lemma andThen_Inr:
  "andThen m k = Inr r \<Longrightarrow> \<exists>x. m = Inr x \<and> k x = Inr r"
  by (cases m) simp_all


lemma length_setCurrentFrame_ge:
  "length (frameStack evaluation) \<le> length (frameStack (setCurrentFrame f evaluation))"
  by (simp add: setCurrentFrame_def)

lemma length_pushFrame [simp]:
  "length (frameStack (pushFrame f evaluation)) = Suc (length (frameStack evaluation))"
  by (simp add: pushFrame_def)

lemma length_advance:
  "frameStack evaluation \<noteq> [] \<Longrightarrow>
   length (frameStack (advance evaluation)) = length (frameStack evaluation)"
  by (simp add: advance_def length_frameStack_setCurrentFrame)

lemma interrupt_instances:
  "interrupt k v evaluation = Inr evaluation' \<Longrightarrow> instances evaluation' = instances evaluation"
  by (auto simp: interrupt_def Let_def andThen_def split: if_splits sum.splits)


lemma reraise_INTERRUPT:
  "step_INTERRUPT k (n, e) = Inr (n', e') \<Longrightarrow> n' = n \<and> instances e' = instances e"
  by (auto simp: step_INTERRUPT_def dest!: andThen_Inr interrupt_instances)

lemma reraise_RESUME_INTERRUPTION:
  "step_RESUME_INTERRUPTION (n, e) = Inr (n', e') \<Longrightarrow> n' = n \<and> instances e' = instances e"
  by (auto simp: step_RESUME_INTERRUPTION_def Let_def dest!: andThen_Inr interrupt_instances
      split: if_splits option.splits)

lemma raiseBadParameter_result:
  "raiseBadParameter host (n, e) =
     andThen (interrupt exception (uuid host n)
        (e\<lparr>instances := (instances e)
           (uuid host n \<mapsto> \<lparr>id = uuid host n, module = ''wollok.lang.BadParameterException'',
              obj_fields = Map.empty, innerValue = Undefined\<rparr>)\<rparr>))
       (\<lambda>e'. Inr (Suc n, e'))"
  by (simp add: raiseBadParameter_def addInstance_BadParameterException)









lemma undisturbedI:
  "frameStack e' = butlast (frameStack e) @ f # gs \<Longrightarrow> undisturbed e e'"
  by (cases "frameStack e" rule: rev_cases) (auto simp: undisturbed_def nth_append)










lemma undisturbed_setCurrentFrame [simp]: "undisturbed e (setCurrentFrame f e)"
  by (rule undisturbedI [of _ _ f "[]"]) (simp add: frameStack_setCurrentFrame)


lemma undisturbed_instances [simp]:
  "undisturbed e (e1\<lparr>instances := x\<rparr>) = undisturbed e e1"
  by (simp add: undisturbed_def)

lemma undisturbed_frames:
  "frameStack e2 = frameStack e1 \<Longrightarrow> undisturbed e e1 \<Longrightarrow> undisturbed e e2"
  by (simp add: undisturbed_def)











































subsection \<open>The well-known instances\<close>

lemma instances_pushFrame [simp]: "instances (pushFrame f evaluation) = instances evaluation"
  by (simp add: pushFrame_def)

lemma moduleOf_cong: "instances e' = instances e \<Longrightarrow> moduleOf e' i = moduleOf e i"
  by (simp add: moduleOf_def)

lemma moduleOf_addInstance:
  "addInstance host m v (n, e) = Inr (j, n', e') \<Longrightarrow> uuid host n \<noteq> i \<Longrightarrow>
   moduleOf e' i = moduleOf e i"
  by (auto simp: addInstance_def Let_def moduleOf_def dest!: andThen_Inr)

lemma moduleOf_bindParameters:
  "bindParameters host ps argIds selfId (n, e) = Inr (ls, n', e') \<Longrightarrow> uuid host n \<noteq> i \<Longrightarrow>
   moduleOf e' i = moduleOf e i"
  by (auto simp: bindParameters_def Let_def addInstance_List moduleOf_def split: if_splits)

lemma moduleOf_raiseBadParameter:
  "raiseBadParameter host (n, e) = Inr (n', e') \<Longrightarrow> uuid host n \<noteq> i \<Longrightarrow>
   moduleOf e' i = moduleOf e i"
  by (auto simp: raiseBadParameter_result moduleOf_def dest!: andThen_Inr interrupt_instances)

lemma moduleOf_LOAD:
  "step_LOAD name (n, e) = Inr (n', e') \<Longrightarrow> moduleOf e' i = moduleOf e i"
  by (auto simp: step_LOAD_def moduleOf_def split: option.splits)

lemma moduleOf_STORE:
  "step_STORE name lookup (n, e) = Inr (n', e') \<Longrightarrow> moduleOf e' i = moduleOf e i"
  by (auto simp: step_STORE_def Let_def moduleOf_def dest!: andThen_Inr)

lemma moduleOf_PUSH:
  "step_PUSH j (n, e) = Inr (n', e') \<Longrightarrow> moduleOf e' i = moduleOf e i"
  by (auto simp: step_PUSH_def moduleOf_def)

lemma moduleOf_GET:
  "step_GET name (n, e) = Inr (n', e') \<Longrightarrow> moduleOf e' i = moduleOf e i"
  by (auto simp: step_GET_def moduleOf_def dest!: andThen_Inr split: option.splits if_splits)

lemma moduleOf_SET:
  "step_SET name (n, e) = Inr (n', e') \<Longrightarrow> moduleOf e' i = moduleOf e i"
  by (auto simp: step_SET_def moduleOf_def getInstance_def dest!: andThen_Inr
      split: option.splits)

lemma moduleOf_SWAP:
  "step_SWAP (n, e) = Inr (n', e') \<Longrightarrow> moduleOf e' i = moduleOf e i"
  by (auto simp: step_SWAP_def moduleOf_def dest!: andThen_Inr)

lemma moduleOf_INSTANTIATE:
  "step_INSTANTIATE host m v (n, e) = Inr (n', e') \<Longrightarrow> uuid host n \<noteq> i \<Longrightarrow>
   moduleOf e' i = moduleOf e i"
proof -
  assume a: "step_INSTANTIATE host m v (n, e) = Inr (n', e')" and u: "uuid host n \<noteq> i"
  then obtain j k e1 where ai: "addInstance host m v (n, e) = Inr (j, k, e1)"
    and r: "e' = setCurrentFrame (pushOperand j (currentFrame e1)) e1"
    by (auto simp: step_INSTANTIATE_def dest!: andThen_Inr)
  from moduleOf_addInstance [OF ai u] r show ?thesis by (simp add: moduleOf_def)
qed

lemma moduleOf_INHERITS:
  "step_INHERITS m (n, e) = Inr (n', e') \<Longrightarrow> moduleOf e' i = moduleOf e i"
  by (auto simp: step_INHERITS_def Let_def moduleOf_def dest!: andThen_Inr)

lemma moduleOf_CONDITIONAL_JUMP:
  "step_CONDITIONAL_JUMP host count (n, e) = Inr (n', e') \<Longrightarrow> uuid host n \<noteq> i \<Longrightarrow>
   moduleOf e' i = moduleOf e i"
proof -
  assume a: "step_CONDITIONAL_JUMP host count (n, e) = Inr (n', e')" and u: "uuid host n \<noteq> i"
  then obtain check f where p: "popOperand (currentFrame e) = Inr (check, f)"
    by (auto simp: step_CONDITIONAL_JUMP_def dest!: andThen_Inr)
  show ?thesis
  proof (cases "check \<noteq> TRUE_ID \<and> check \<noteq> FALSE_ID")
    case True
    with a p have "raiseBadParameter host (n, setCurrentFrame f e) = Inr (n', e')"
      by (simp add: step_CONDITIONAL_JUMP_def)
    from moduleOf_raiseBadParameter [OF this u] show ?thesis by (simp add: moduleOf_def)
  next
    case False
    with a p show ?thesis
      by (auto simp: step_CONDITIONAL_JUMP_def moduleOf_def split: if_splits)
  qed
qed

lemma moduleOf_IF_THEN_ELSE:
  "step_IF_THEN_ELSE host t el (n, e) = Inr (n', e') \<Longrightarrow> uuid host n \<noteq> i \<Longrightarrow>
   moduleOf e' i = moduleOf e i"
proof -
  assume a: "step_IF_THEN_ELSE host t el (n, e) = Inr (n', e')" and u: "uuid host n \<noteq> i"
  then obtain check f where p: "popOperand (currentFrame e) = Inr (check, f)"
    by (auto simp: step_IF_THEN_ELSE_def dest!: andThen_Inr)
  show ?thesis
  proof (cases "check \<noteq> TRUE_ID \<and> check \<noteq> FALSE_ID")
    case True
    with a p have "raiseBadParameter host (n, setCurrentFrame f e) = Inr (n', e')"
      by (simp add: step_IF_THEN_ELSE_def)
    from moduleOf_raiseBadParameter [OF this u] show ?thesis by (simp add: moduleOf_def)
  next
    case False
    with a p show ?thesis
      by (auto simp: step_IF_THEN_ELSE_def moduleOf_def split: if_splits)
  qed
qed

lemma moduleOf_TRY_CATCH_ALWAYS:
  "step_TRY_CATCH_ALWAYS b c a (n, e) = Inr (n', e') \<Longrightarrow> moduleOf e' i = moduleOf e i"
  by (auto simp: step_TRY_CATCH_ALWAYS_def moduleOf_def)

lemma moduleOf_INTERRUPT:
  "step_INTERRUPT k (n, e) = Inr (n', e') \<Longrightarrow> moduleOf e' i = moduleOf e i"
  using reraise_INTERRUPT [of k n e n' e'] by (simp add: moduleOf_def)

lemma moduleOf_RESUME_INTERRUPTION:
  "step_RESUME_INTERRUPTION (n, e) = Inr (n', e') \<Longrightarrow> moduleOf e' i = moduleOf e i"
  using reraise_RESUME_INTERRUPTION [of n e n' e'] by (simp add: moduleOf_def)

lemma moduleOf_INIT:
  "step_INIT host arity l initFields (n, e) = Inr (n', e') \<Longrightarrow> uuid host n \<noteq> i \<Longrightarrow>
   moduleOf e' i = moduleOf e i"
proof -
  assume a: "step_INIT host arity l initFields (n, e) = Inr (n', e')" and u: "uuid host n \<noteq> i"
  then obtain selfId f0 where p1: "popOperand (currentFrame e) = Inr (selfId, f0)"
    by (auto simp: step_INIT_def Let_def dest!: andThen_Inr)
  with a obtain popped f where p2: "popOperands arity f0 = Inr (popped, f)"
    by (auto simp: step_INIT_def Let_def dest!: andThen_Inr)
  with a p1 obtain self where gi: "getInstance (instances e) selfId = Inr self"
    by (auto simp: step_INIT_def Let_def dest!: andThen_Inr)
  with a p1 p2 obtain c where cl: "constructorLookup (environment e) arity
      (resolve (environment e) (Some l)) = Some c"
    by (cases "constructorLookup (environment e) arity (resolve (environment e) (Some l))")
       (auto simp: step_INIT_def Let_def)
  obtain ls k e1 where bp: "bindParameters host (constructor_parameters c) (rev popped) selfId
      (n, setCurrentFrame f e) = Inr (ls, k, e1)"
    by (cases "\<exists>p \<in> set (constructor_parameters c). isVarArg p")
       (auto simp: bindParameters_fixed bindParameters_varargs)
  with a p1 p2 gi cl obtain g where
    r: "e' = pushFrame g (setCurrentFrame (addResume return (currentFrame e1)) e1)"
    by (auto simp: step_INIT_def Let_def)
  from moduleOf_bindParameters [OF bp u] r show ?thesis by (simp add: moduleOf_def)
qed

lemma moduleOf_call_method:
  "call_method host method argIds selfId (n, e) = Inr (n', e') \<Longrightarrow> uuid host n \<noteq> i \<Longrightarrow>
   moduleOf e' i = moduleOf e i"
proof -
  assume a: "call_method host method argIds selfId (n, e) = Inr (n', e')" and u: "uuid host n \<noteq> i"
  then obtain ls e1 g where
    bp: "bindParameters host (method_parameters method) argIds selfId (n, e) = Inr (ls, n', e1)"
    and r: "e' = pushFrame g (setCurrentFrame (addResume return (currentFrame e1)) e1)"
    by (auto simp: call_method_def Let_def dest!: andThen_Inr split: option.splits)
  from moduleOf_bindParameters [OF bp u] r show ?thesis by (simp add: moduleOf_def)
qed

lemma moduleOf_call_messageNotUnderstood:
  "call_messageNotUnderstood host message argIds selfId self (n, e) = Inr (n', e') \<Longrightarrow>
   uuid host n \<noteq> i \<Longrightarrow> uuid host (Suc n) \<noteq> i \<Longrightarrow> moduleOf e' i = moduleOf e i"
  by (auto simp: call_messageNotUnderstood_def addInstance_String addInstance_List Let_def
      moduleOf_def split: option.splits)

lemma moduleOf_CALL:
  assumes a: "step_CALL host natives message arity lookupStart (n, e) = Inr (n', e')"
    and u: "\<forall>k. uuid host k \<noteq> i"
    and nat: "\<forall>method self args s s'. natives method self args s = Inr s' \<longrightarrow>
       moduleOf (snd s') i = moduleOf (snd s) i"
  shows "moduleOf e' i = moduleOf e i"
proof -
  from a obtain popped f0 selfId f self where
    p1: "popOperands arity (currentFrame e) = Inr (popped, f0)"
    and p2: "popOperand f0 = Inr (selfId, f)"
    and gi: "getInstance (instances e) selfId = Inr self"
    by (auto simp: step_CALL_def Let_def dest!: andThen_Inr)
  let ?s = "(n, setCurrentFrame f e)"
  let ?l = "methodLookup (environment e) message arity
      (resolve (environment e) (call_lookupStart (environment e) self lookupStart))"
  have m0: "moduleOf (setCurrentFrame f e) i = moduleOf e i" by (simp add: moduleOf_def)
  from p1 p2 gi have d: "step_CALL host natives message arity lookupStart (n, e) =
     (case ?l of
        None \<Rightarrow> call_messageNotUnderstood host message (rev popped) selfId self ?s
      | Some method \<Rightarrow>
          if isNative method
          then natives method self (map (instances e) (rev popped)) ?s
          else call_method host method (rev popped) selfId ?s)"
    by (simp add: step_CALL_def Let_def)
  show ?thesis
  proof (cases ?l)
    case None
    with d a have "call_messageNotUnderstood host message (rev popped) selfId self ?s =
        Inr (n', e')" by simp
    from moduleOf_call_messageNotUnderstood [OF this] u m0 show ?thesis by simp
  next
    case (Some mth)
    show ?thesis
    proof (cases "isNative mth")
      case True
      with d a Some have "natives mth self (map (instances e) (rev popped)) ?s = Inr (n', e')"
        by simp
      with nat have "moduleOf (snd (n', e')) i = moduleOf (snd ?s) i" by blast
      with m0 show ?thesis by simp
    next
      case False
      with d a Some have "call_method host mth (rev popped) selfId ?s = Inr (n', e')"
        by simp
      from moduleOf_call_method [OF this] u m0 show ?thesis by simp
    qed
  qed
qed

lemma moduleOf_advance [simp]: "moduleOf (advance e) i = moduleOf e i"
  by (simp add: moduleOf_def)

lemma moduleOf_step:
  assumes ok: "step host natives (n, e) = Inr (n', e')"
    and u: "\<forall>k. uuid host k \<noteq> i"
    and nat: "\<forall>method self args s s'. natives method self args s = Inr s' \<longrightarrow>
       moduleOf (snd s') i = moduleOf (snd s) i"
  shows "moduleOf e' i = moduleOf e i"
proof -
  from ok obtain instruction where ex: "executing e instruction"
    by (auto simp: step_def executing_def Let_def split: if_splits option.splits)
  from step_executing [OF ex, of host natives n] ok
  have r: "execute host natives instruction (n, advance e) = Inr (n', e')" by simp
  from u have un: "uuid host n \<noteq> i" by simp
  show ?thesis
  proof (cases instruction)
    case (LOAD x)
    with r moduleOf_LOAD [of x n "advance e" n' e' i] show ?thesis by simp
  next
    case (STORE x y)
    with r moduleOf_STORE [of x y n "advance e" n' e' i] show ?thesis by simp
  next
    case (PUSH x)
    with r moduleOf_PUSH [of x n "advance e" n' e' i] show ?thesis by simp
  next
    case (GET x)
    with r moduleOf_GET [of x n "advance e" n' e' i] show ?thesis by simp
  next
    case (SET x)
    with r moduleOf_SET [of x n "advance e" n' e' i] show ?thesis by simp
  next
    case SWAP
    with r moduleOf_SWAP [of n "advance e" n' e' i] show ?thesis by simp
  next
    case (INSTANTIATE x y)
    with r un moduleOf_INSTANTIATE [of host x y n "advance e" n' e' i] show ?thesis by simp
  next
    case (INHERITS x)
    with r moduleOf_INHERITS [of x n "advance e" n' e' i] show ?thesis by simp
  next
    case (CONDITIONAL_JUMP x)
    with r un moduleOf_CONDITIONAL_JUMP [of host x n "advance e" n' e' i] show ?thesis by simp
  next
    case (CALL x y z)
    with r u nat moduleOf_CALL [of host natives x y z n "advance e" n' e' i] show ?thesis
      by simp
  next
    case (INIT x y z)
    with r un moduleOf_INIT [of host x y z n "advance e" n' e' i] show ?thesis by simp
  next
    case (IF_THEN_ELSE x y)
    with r un moduleOf_IF_THEN_ELSE [of host x y n "advance e" n' e' i] show ?thesis by simp
  next
    case (TRY_CATCH_ALWAYS x y z)
    with r moduleOf_TRY_CATCH_ALWAYS [of x y z n "advance e" n' e' i] show ?thesis by simp
  next
    case (INTERRUPT x)
    with r moduleOf_INTERRUPT [of x n "advance e" n' e' i] show ?thesis by simp
  next
    case RESUME_INTERRUPTION
    with r moduleOf_RESUME_INTERRUPTION [of n "advance e" n' e' i] show ?thesis by simp
  qed
qed

lemma moduleOf_steps:
  assumes u: "\<forall>k. uuid host k \<noteq> i"
    and nat: "\<forall>method self args s s'. natives method self args s = Inr s' \<longrightarrow>
       moduleOf (snd s') i = moduleOf (snd s) i"
  shows "steps host natives k (n, e) = Inr (n', e') \<Longrightarrow> moduleOf e' i = moduleOf e i"
proof (induction k arbitrary: n e)
  case 0
  then show ?case by simp
next
  case (Suc k)
  from Suc.prems obtain n1 e1 where s1: "step host natives (n, e) = Inr (n1, e1)"
    and rest: "steps host natives k (n1, e1) = Inr (n', e')"
    by (auto dest!: andThen_Inr)
  from moduleOf_step [OF s1 u nat] Suc.IH [OF rest] show ?case by simp
qed

lemma foldl_assoc_other:
  "k \<notin> id ` set xs \<Longrightarrow> foldl (\<lambda>all instance. all(id instance \<mapsto> instance)) m xs k = m k"
  by (induction xs arbitrary: m) auto

lemma instances_buildEvaluationFor:
  assumes "\<forall>s \<in> set (globalSingletons env). singleton_id s \<noteq> k"
  shows "instances (buildEvaluationFor env) k =
     [NULL_ID \<mapsto> \<lparr>id = NULL_ID, module = ''wollok.lang.Object'', obj_fields = Map.empty,
                   innerValue = Null\<rparr>,
      TRUE_ID \<mapsto> \<lparr>id = TRUE_ID, module = ''wollok.lang.Boolean'', obj_fields = Map.empty,
                   innerValue = Boolean True\<rparr>,
      FALSE_ID \<mapsto> \<lparr>id = FALSE_ID, module = ''wollok.lang.Boolean'', obj_fields = Map.empty,
                    innerValue = Boolean False\<rparr>] k"
proof -
  from assms have "k \<notin> id ` set (map (\<lambda>m. \<lparr>id = singleton_id m,
      module = fullyQualifiedName env (singleton_id m),
      obj_fields = Map.empty, innerValue = Undefined\<rparr>) (globalSingletons env))"
    by auto
  from foldl_assoc_other [OF this] show ?thesis
    by (simp add: buildEvaluationFor_def Let_def)
qed

text \<open>
  C2 as stated has an instance \<open>void\<close> in the heap that \<open>buildEvaluationFor\<close> returns. The
  heap is built from \<open>null\<close>, \<open>true\<close>, \<open>false\<close> and the global singletons only.
\<close>

theorem buildEvaluationFor_void_counterexample:
  "instances (buildEvaluationFor sampleEnvironment) VOID_ID = None"
  by (simp add: instances_buildEvaluationFor sampleEnvironment_def VOID_ID_def NULL_ID_def
      TRUE_ID_def FALSE_ID_def)

text \<open>
  C2, as amended. The heap that \<open>buildEvaluationFor\<close> returns holds instances \<open>null\<close>,
  \<open>true\<close> and \<open>false\<close> of the modules \<open>wollok.lang.Object\<close>, \<open>wollok.lang.Boolean\<close> and
  \<open>wollok.lang.Boolean\<close>, and so does every evaluation reached from it by steps, as long
  as no global singleton and no generated id is one of the three ids and the natives leave
  the modules of the three instances alone. No instance \<open>void\<close> is allocated: it is in the
  heap only if a global singleton has that id.
\<close>

theorem bootstrap_keeps_null_true_false:
  "(\<forall>s \<in> set (globalSingletons env).
      singleton_id s \<noteq> NULL_ID \<and> singleton_id s \<noteq> TRUE_ID \<and> singleton_id s \<noteq> FALSE_ID) \<and>
   (\<forall>k. uuid host k \<noteq> NULL_ID \<and> uuid host k \<noteq> TRUE_ID \<and> uuid host k \<noteq> FALSE_ID) \<and>
   (\<forall>method self args s s' i.
      (i = NULL_ID \<or> i = TRUE_ID \<or> i = FALSE_ID) \<and> natives method self args s = Inr s'
      \<longrightarrow> moduleOf (snd s') i = moduleOf (snd s) i) \<and>
   steps host natives k (n, buildEvaluationFor env) = Inr (n', e')
   \<longrightarrow>
   moduleOf e' NULL_ID = Some ''wollok.lang.Object'' \<and>
   moduleOf e' TRUE_ID = Some ''wollok.lang.Boolean'' \<and>
   moduleOf e' FALSE_ID = Some ''wollok.lang.Boolean'' \<and>
   ((\<forall>s \<in> set (globalSingletons env). singleton_id s \<noteq> VOID_ID)
      \<longrightarrow> instances (buildEvaluationFor env) VOID_ID = None)"
proof (intro impI)
  assume h: "(\<forall>s \<in> set (globalSingletons env).
      singleton_id s \<noteq> NULL_ID \<and> singleton_id s \<noteq> TRUE_ID \<and> singleton_id s \<noteq> FALSE_ID) \<and>
   (\<forall>k. uuid host k \<noteq> NULL_ID \<and> uuid host k \<noteq> TRUE_ID \<and> uuid host k \<noteq> FALSE_ID) \<and>
   (\<forall>method self args s s' i.
      (i = NULL_ID \<or> i = TRUE_ID \<or> i = FALSE_ID) \<and> natives method self args s = Inr s'
      \<longrightarrow> moduleOf (snd s') i = moduleOf (snd s) i) \<and>
   steps host natives k (n, buildEvaluationFor env) = Inr (n', e')"
  then have run: "steps host natives k (n, buildEvaluationFor env) = Inr (n', e')" by simp
  have keep: "moduleOf e' i = moduleOf (buildEvaluationFor env) i"
    if i: "i = NULL_ID \<or> i = TRUE_ID \<or> i = FALSE_ID" for i
  proof -
    from h i have u: "\<forall>k. uuid host k \<noteq> i" by auto
    from h i have nat: "\<forall>method self args s s'. natives method self args s = Inr s' \<longrightarrow>
       moduleOf (snd s') i = moduleOf (snd s) i" by blast
    from moduleOf_steps [OF u nat run] show ?thesis .
  qed
  have d: "NULL_ID \<noteq> TRUE_ID" "NULL_ID \<noteq> FALSE_ID" "TRUE_ID \<noteq> FALSE_ID"
    "VOID_ID \<noteq> NULL_ID" "VOID_ID \<noteq> TRUE_ID" "VOID_ID \<noteq> FALSE_ID"
    by (simp_all add: NULL_ID_def TRUE_ID_def FALSE_ID_def VOID_ID_def)
  from h have n0: "moduleOf (buildEvaluationFor env) NULL_ID = Some ''wollok.lang.Object''"
    using d by (simp add: moduleOf_def instances_buildEvaluationFor)
  from h have t0: "moduleOf (buildEvaluationFor env) TRUE_ID = Some ''wollok.lang.Boolean''"
    using d by (simp add: moduleOf_def instances_buildEvaluationFor)
  from h have f0: "moduleOf (buildEvaluationFor env) FALSE_ID = Some ''wollok.lang.Boolean''"
    using d by (simp add: moduleOf_def instances_buildEvaluationFor)
  have v: "(\<forall>s \<in> set (globalSingletons env). singleton_id s \<noteq> VOID_ID)
      \<longrightarrow> instances (buildEvaluationFor env) VOID_ID = None"
    using d by (simp add: instances_buildEvaluationFor)
  from keep [of NULL_ID] keep [of TRUE_ID] keep [of FALSE_ID] n0 t0 f0 v
  show "moduleOf e' NULL_ID = Some ''wollok.lang.Object'' \<and>
   moduleOf e' TRUE_ID = Some ''wollok.lang.Boolean'' \<and>
   moduleOf e' FALSE_ID = Some ''wollok.lang.Boolean'' \<and>
   ((\<forall>s \<in> set (globalSingletons env). singleton_id s \<noteq> VOID_ID)
      \<longrightarrow> instances (buildEvaluationFor env) VOID_ID = None)"
    by simp
qed

lemma sampleNatives_instances:
  "sampleNatives method self args s = Inr s' \<Longrightarrow> instances (snd s') = instances (snd s)"
  by (cases s) (auto simp: sampleNatives_def)

theorem bootstrap_keeps_null_true_false_witness:
  "\<exists>n' e'.
   ((\<forall>s \<in> set (globalSingletons sampleEnvironment).
      singleton_id s \<noteq> NULL_ID \<and> singleton_id s \<noteq> TRUE_ID \<and> singleton_id s \<noteq> FALSE_ID) \<and>
    (\<forall>k. uuid sampleHost k \<noteq> NULL_ID \<and> uuid sampleHost k \<noteq> TRUE_ID \<and>
         uuid sampleHost k \<noteq> FALSE_ID) \<and>
    (\<forall>method self args s s' i.
      (i = NULL_ID \<or> i = TRUE_ID \<or> i = FALSE_ID) \<and> sampleNatives method self args s = Inr s'
      \<longrightarrow> moduleOf (snd s') i = moduleOf (snd s) i) \<and>
    steps sampleHost sampleNatives (Suc 0) (0, buildEvaluationFor sampleEnvironment) =
      Inr (n', e')) \<and>
   moduleOf e' NULL_ID = Some ''wollok.lang.Object'' \<and>
   moduleOf e' TRUE_ID = Some ''wollok.lang.Boolean'' \<and>
   moduleOf e' FALSE_ID = Some ''wollok.lang.Boolean'' \<and>
   operandStack (currentFrame e') = [''game'']"
proof -
  let ?b = "buildEvaluationFor sampleEnvironment"
  have ex: "executing ?b (PUSH ''game'')"
    by (simp add: executing_def buildEvaluationFor_def sampleEnvironment_def currentFrame_def
        at_def)
  have os: "operandStack (currentFrame ?b) = []"
    by (simp add: buildEvaluationFor_def Let_def currentFrame_def)
  from step_executing [OF ex, of sampleHost sampleNatives 0]
  have s: "steps sampleHost sampleNatives (Suc 0) (0, ?b) =
      Inr (0, setCurrentFrame (pushOperand ''game'' (currentFrame (advance ?b))) (advance ?b))"
    by (simp add: step_PUSH_def)
  have h: "(\<forall>s \<in> set (globalSingletons sampleEnvironment).
      singleton_id s \<noteq> NULL_ID \<and> singleton_id s \<noteq> TRUE_ID \<and> singleton_id s \<noteq> FALSE_ID) \<and>
    (\<forall>k. uuid sampleHost k \<noteq> NULL_ID \<and> uuid sampleHost k \<noteq> TRUE_ID \<and>
         uuid sampleHost k \<noteq> FALSE_ID) \<and>
    (\<forall>method self args s s' i.
      (i = NULL_ID \<or> i = TRUE_ID \<or> i = FALSE_ID) \<and> sampleNatives method self args s = Inr s'
      \<longrightarrow> moduleOf (snd s') i = moduleOf (snd s) i) \<and>
    steps sampleHost sampleNatives (Suc 0) (0, ?b) =
      Inr (0, setCurrentFrame (pushOperand ''game'' (currentFrame (advance ?b))) (advance ?b))"
    using s sampleNatives_instances
    by (auto simp: sampleEnvironment_def sampleHost_def NULL_ID_def TRUE_ID_def FALSE_ID_def
        moduleOf_def)
  from bootstrap_keeps_null_true_false [rule_format, OF h]
  have c: "moduleOf (setCurrentFrame (pushOperand ''game'' (currentFrame (advance ?b))) (advance ?b))
       NULL_ID = Some ''wollok.lang.Object'' \<and>
     moduleOf (setCurrentFrame (pushOperand ''game'' (currentFrame (advance ?b))) (advance ?b))
       TRUE_ID = Some ''wollok.lang.Boolean'' \<and>
     moduleOf (setCurrentFrame (pushOperand ''game'' (currentFrame (advance ?b))) (advance ?b))
       FALSE_ID = Some ''wollok.lang.Boolean''"
    by simp
  have o: "operandStack (currentFrame
      (setCurrentFrame (pushOperand ''game'' (currentFrame (advance ?b))) (advance ?b))) = [''game'']"
    using os by (simp add: pushOperand_def currentFrame_advance)
  from h c o show ?thesis by blast
qed

subsection \<open>Cloning\<close>





subsection \<open>Cloning in memory: the clone shares no container with the original\<close>



lemma sameCells_sym: "sameCells m m' lo hi \<Longrightarrow> sameCells m' m lo hi"
  by (simp add: sameCells_def)

lemma sameCells_refl [simp]: "sameCells m m lo hi"
  by (simp add: sameCells_def)







lemma alloc_facts:
  assumes "alloc c m = (a, m')"
  shows "a = nextFree m" "nextFree m' = Suc (nextFree m)" "cells m' = (cells m)(nextFree m \<mapsto> c)"
  using assms by (auto simp: alloc_def)













subsection \<open>Numbers\<close>

text \<open>
  A number literal compiles to one \<open>INSTANTIATE\<close>, and executing it stores what the host's
  \<open>Number(x.toFixed(4))\<close> makes of the literal. Which number that is, is a matter of the
  host's floating-point arithmetic and lies outside this embedding.
\<close>

lemma number_literal_stores_toFixed4:
  "compile env (Literal (LiteralNumber x)) = [INSTANTIATE ''wollok.lang.Number'' (Number x)] \<and>
   addInstance host ''wollok.lang.Number'' (Number x) (n, evaluation) =
     Inr (uuid host n, Suc n, evaluation\<lparr>instances := (instances evaluation)
       (uuid host n \<mapsto> \<lparr>id = uuid host n, module = ''wollok.lang.Number'',
          obj_fields = Map.empty, innerValue = Number (toFixed4 host x)\<rparr>)\<rparr>)"
  by (simp add: addInstance_def Let_def)

end
